theory Spec2Isabelle
  imports Complex_Main "HOL-Library.AList"
begin

section \<open>The optical path manager of Odemis (odemis/acq/path.py)\<close>

text \<open>
  A shallow embedding of \<^verbatim>\<open>OpticalPathManager\<close>: its constructor, \<^verbatim>\<open>_getComponent\<close>,
  \<^verbatim>\<open>setPath\<close>, \<^verbatim>\<open>guessMode\<close> and \<^verbatim>\<open>findNonMirror\<close>.

  Python dictionaries that the code iterates over (the mode tables, the per-mode
  configuration, the choices of an axis) are association lists with distinct keys, and a
  loop over \<^verbatim>\<open>.items()\<close> goes through the list in its order. The two static mode
  tables are listed in the order of the source text; the order in which Python 2 yields
  their entries is that of its hash table, and no general statement below depends on it.
  Dictionaries that are only looked up
  (\<^verbatim>\<open>_known_comps\<close>, \<^verbatim>\<open>_stored\<close>, \<^verbatim>\<open>position.value\<close>) are maps.
  Every exception of the source is a value of \<open>error\<close>, returned together with the state
  the manager has when it is raised.
\<close>

subsection \<open>Values\<close>

text \<open>
  What the hardware reports and accepts: strings, numbers (an int or a float, as the
  rational it denotes, so that \<open>=\<close> is Python's \<^verbatim>\<open>==\<close> on them) and lists.
\<close>

datatype val = Str string | Num rat | Lst "val list"

text \<open>
  A target of a mode configuration is such a value or the module's private sentinel
  \<^verbatim>\<open>GRATING_NOT_MIRROR = object()\<close>, which is equal to nothing but itself.
\<close>

datatype target = Lit val | GRATING_NOT_MIRROR

type_synonym conf = "(string \<times> target) list"
type_synonym modeconf = "(string \<times> conf) list"
type_synonym mode_table = "(string \<times> string \<times> modeconf) list"

text \<open>\<^verbatim>\<open>math.radians(90)\<close>, \<^verbatim>\<open>500e-6\<close> and \<^verbatim>\<open>10e-6\<close> as the doubles they are.\<close>

definition radians_90 :: rat where
  "radians_90 = 884279719003555 / 562949953421312"

definition slit_500e_6 :: rat where
  "slit_500e_6 = 1152921504606847 / 2305843009213693952"

definition slit_10e_6 :: rat where
  "slit_10e_6 = 5902958103587057 / 590295810358705651712"

definition rx :: "rat \<Rightarrow> conf" where
  "rx a = [(''rx'', Lit (Num a))]"

definition x_axis :: "string \<Rightarrow> conf" where
  "x_axis v = [(''x'', Lit (Str v))]"

definition SPARC_MODES :: mode_table where
  "SPARC_MODES =
    [(''ar'', ''ccd'',
        [(''lens-switch'', rx radians_90),
         (''ar-spec-selector'', rx 0),
         (''ar-det-selector'', rx 0)]),
     (''cli'', ''cl-detector'',
        [(''lens-switch'', rx radians_90),
         (''ar-spec-selector'', rx 0),
         (''ar-det-selector'', rx radians_90)]),
     (''spectral'', ''spectrometer'',
        [(''lens-switch'', rx radians_90),
         (''ar-spec-selector'', rx radians_90),
         (''spec-det-selector'', rx 0)]),
     (''monochromator'', ''monochromator'',
        [(''lens-switch'', rx radians_90),
         (''ar-spec-selector'', rx radians_90),
         (''spec-det-selector'', rx radians_90)]),
     (''mirror-align'', ''ccd'',
        [(''lens-switch'', rx 0),
         (''filter'', [(''band'', Lit (Str ''pass-through''))]),
         (''ar-spec-selector'', rx 0),
         (''ar-det-selector'', rx 0)]),
     (''chamber-view'', ''ccd'',
        [(''lens-switch'', rx radians_90),
         (''filter'', [(''band'', Lit (Str ''pass-through''))]),
         (''ar-spec-selector'', rx 0),
         (''ar-det-selector'', rx 0)]),
     (''fiber-align'', ''spectrometer'',
        [(''lens-switch'', rx radians_90),
         (''filter'', [(''band'', Lit (Str ''pass-through''))]),
         (''ar-spec-selector'', rx radians_90),
         (''spec-det-selector'', rx 0),
         (''spectrograph'', [(''slit-in'', Lit (Num slit_500e_6))])])]"

definition SPARC2_MODES :: mode_table where
  "SPARC2_MODES =
    [(''ar'', ''ccd'',
        [(''lens-switch'', x_axis ''on''),
         (''slit-in-big'', x_axis ''on''),
         (''spectrograph'', [(''grating'', Lit (Str ''mirror''))]),
         (''cl-det-selector'', x_axis ''off''),
         (''spec-det-selector'', rx 0)]),
     (''spectral-integrated'', ''spectrometer'',
        [(''lens-switch'', x_axis ''off''),
         (''slit-in-big'', x_axis ''off''),
         (''cl-det-selector'', x_axis ''off''),
         (''spec-det-selector'', rx 0),
         (''spectrograph'', [(''grating'', GRATING_NOT_MIRROR)])]),
     (''spectral-dedicated'', ''spectrometer'',
        [(''lens-switch'', x_axis ''off''),
         (''slit-in-big'', x_axis ''off''),
         (''cl-det-selector'', x_axis ''off''),
         (''spec-det-selector'', rx radians_90),
         (''spectrograph'', [(''grating'', GRATING_NOT_MIRROR)])]),
     (''mirror-align'', ''ccd'',
        [(''lens-switch'', x_axis ''off''),
         (''slit-in-big'', x_axis ''on''),
         (''spectrograph'', [(''grating'', Lit (Str ''mirror''))]),
         (''cl-det-selector'', x_axis ''off''),
         (''spec-det-selector'', rx 0)]),
     (''chamber-view'', ''ccd'',
        [(''lens-switch'', x_axis ''on''),
         (''slit-in-big'', x_axis ''on''),
         (''spectrograph'', [(''grating'', Lit (Str ''mirror''))]),
         (''cl-det-selector'', x_axis ''off''),
         (''spec-det-selector'', rx 0)]),
     (''spec-focus'', ''ccd'',
        [(''lens-switch'', x_axis ''off''),
         (''slit-in-big'', x_axis ''off''),
         (''spectrograph'', [(''slit-in'', Lit (Num slit_10e_6)), (''grating'', Lit (Str ''mirror''))]),
         (''cl-det-selector'', x_axis ''off''),
         (''spec-det-selector'', rx 0)])]"

text \<open>The set \<^verbatim>\<open>ALIGN_MODES\<close>: a list for the constructor's loop over it, its \<open>set\<close> for membership.\<close>

definition ALIGN_MODES :: "string list" where
  "ALIGN_MODES = [''mirror-align'', ''chamber-view'', ''fiber-align'', ''spec-focus'']"

subsection \<open>Components, the running backend, errors and effects\<close>

text \<open>
  An axis of an actuator (\<^verbatim>\<open>model.Axis\<close>) has a \<^verbatim>\<open>range\<close> and no attribute
  \<^verbatim>\<open>choices\<close>, or \<^verbatim>\<open>choices\<close> that are a set, or \<^verbatim>\<open>choices\<close> that are a dict
  from position to what stands there.
\<close>

datatype axis_def = Range | Choices_set "val list" | Choices_dict "(val \<times> val) list"

record component =
  name :: string
  role :: string
  axes :: "(string \<times> axis_def) list"

type_synonym mv = "(string \<times> target) list"
type_synonym future = "string \<times> mv"

text \<open>What \<^verbatim>\<open>f.result()\<close> does for a move future: it returns, or raises IOError.\<close>

datatype fut_result = Done | IOError string

text \<open>
  The running microscope, as the manager sees it: the role of the microscope component,
  the components of \<^verbatim>\<open>model.getComponents()\<close>, the live \<^verbatim>\<open>position.value\<close> of the
  component of a name, and what the future of a move of the component of a name will give.
\<close>

record backend =
  microscope_role :: string
  components :: "component list"
  position_value :: "string \<Rightarrow> string \<rightharpoonup> val"
  move_result :: "string \<Rightarrow> mv \<Rightarrow> fut_result"

text \<open>
  The exceptions: \<open>InvalidMode\<close> and \<open>NoNonMirrorGrating\<close> are the two ValueErrors of
  \<^verbatim>\<open>setPath\<close> and \<^verbatim>\<open>findNonMirror\<close>, \<open>NotFound\<close> the LookupError of the registry,
  \<open>NoModeInferred\<close> the LookupError and \<open>NotAStream\<close> the IOError of \<^verbatim>\<open>guessMode\<close>;
  \<open>KeyError\<close> is a missing dictionary key and \<open>AttributeError\<close> an axis without a
  dict of choices where the code takes \<^verbatim>\<open>.choices.items()\<close>.
\<close>

datatype error =
    InvalidMode string
  | NoNonMirrorGrating
  | NotFound string
  | NoModeInferred
  | NotAStream
  | KeyError
  | AttributeError

datatype logmsg =
    Removing_mode string
  | Failed_to_find_component string
  | Choice_not_present target string
  | Not_moving_axis string string
  | No_filter_component
  | No_spectrograph_component
  | Actuator_move_failed string

text \<open>
  What a call does to the world, in order: a \<^verbatim>\<open>moveAbs(mv)\<close> on the component of a
  name, a \<^verbatim>\<open>f.result()\<close> on the future of such a move, a line of \<^verbatim>\<open>logging.debug\<close>.
\<close>

datatype event = MoveAbs string mv | Result string mv | Debug logmsg

text \<open>
  The manager: \<^verbatim>\<open>guessed\<close>, \<^verbatim>\<open>_modes\<close>, \<^verbatim>\<open>_known_comps\<close>, \<^verbatim>\<open>_stored\<close>,
  \<^verbatim>\<open>_last_mode\<close>, and the events it has caused so far.
\<close>

record manager =
  guessed :: mode_table
  modes :: mode_table
  known_comps :: "string \<rightharpoonup> component"
  stored :: "string \<rightharpoonup> val"
  last_mode :: "string option"
  trace :: "event list"

definition emit :: "event \<Rightarrow> manager \<Rightarrow> manager" where
  "emit e s = s\<lparr>trace := trace s @ [e]\<rparr>"

definition debug :: "logmsg \<Rightarrow> manager \<Rightarrow> manager" where
  "debug m s = emit (Debug m) s"

text \<open>\<^verbatim>\<open>self._last_mode in ALIGN_MODES\<close> (\<^verbatim>\<open>None\<close> is in no set of names).\<close>

fun in_align :: "string option \<Rightarrow> bool" where
  "in_align None = False"
| "in_align (Some m) = (m \<in> set ALIGN_MODES)"

subsection \<open>Component resolution\<close>

text \<open>
  Modelled from the spec: \<^verbatim>\<open>model.getComponent(role=...)\<close> of the component registry,
  whose code is not part of the sources at hand: the component with that role, \<open>None\<close>
  (NotFound, a LookupError) when there is none.
\<close>

definition getComponent :: "backend \<Rightarrow> string \<Rightarrow> component option" where
  "getComponent w r = find (\<lambda>cmp. role cmp = r) (components w)"

text \<open>\<^verbatim>\<open>OpticalPathManager._getComponent\<close>: the cache first, the registry on a miss.\<close>

definition cached_getComponent ::
  "backend \<Rightarrow> string \<Rightarrow> manager \<Rightarrow> (error + component) \<times> manager" where
  "cached_getComponent w r s =
    (case known_comps s r of
       Some cmp \<Rightarrow> (Inr cmp, s)
     | None \<Rightarrow>
        (case getComponent w r of
           None \<Rightarrow> (Inl (NotFound r), s)
         | Some cmp \<Rightarrow> (Inr cmp, s\<lparr>known_comps := (known_comps s)(r \<mapsto> cmp)\<rparr>)))"

subsection \<open>The constructor\<close>

text \<open>
  The loop over \<^verbatim>\<open>self._modes.items()\<close> (a list, taken before the loop): a mode whose
  detector is not found is deleted from \<^verbatim>\<open>_modes\<close>.
\<close>

fun remove_unsupported :: "backend \<Rightarrow> mode_table \<Rightarrow> manager \<Rightarrow> manager" where
  "remove_unsupported w [] s = s"
| "remove_unsupported w ((m, det, cf) # rest) s =
    (case cached_getComponent w det s of
       (Inl e, s1) \<Rightarrow>
         remove_unsupported w rest
           ((debug (Removing_mode m) s1)\<lparr>modes := AList.delete m (modes s1)\<rparr>)
     | (Inr cmp, s1) \<Rightarrow> remove_unsupported w rest s1)"

text \<open>
  \<^verbatim>\<open>__init__\<close>. A \<^verbatim>\<open>del\<close> of the source is \<open>AList.delete\<close>: the first loop ignores a
  missing key, the second deletes keys it iterates over, and the two names of the last
  step are in the guess table of a sparc2 (lemma \<open>sparc2_guessed_keys\<close> below).
\<close>

definition init :: "backend \<Rightarrow> manager" where
  "init w =
    (let base = (if microscope_role w = ''sparc2'' then SPARC2_MODES else SPARC_MODES);
         s0 = \<lparr>guessed = fold AList.delete ALIGN_MODES base, modes = base,
               known_comps = Map.empty, stored = Map.empty, last_mode = None, trace = []\<rparr>;
         s1 = remove_unsupported w (modes s0) s0
     in if microscope_role w = ''sparc2''
        then (if list_ex (\<lambda>cmp. role cmp = ''sp-ccd'') (components w)
              then s1\<lparr>guessed := AList.delete ''spectral-integrated'' (guessed s1)\<rparr>
              else s1\<lparr>guessed := AList.delete ''spectral-dedicated'' (guessed s1)\<rparr>)
        else s1)"

subsection \<open>guessMode and findNonMirror\<close>

text \<open>A single-detector stream with the role of its detector, a multiple-detector stream
  with the detector roles of its streams in order, or an object that is no stream.\<close>

datatype stream_obj = Stream string | MultipleDetectorStream "string list" | Not_a_stream

text \<open>\<^verbatim>\<open>for mode, conf in self.guessed.items(): if conf[0] == role: return mode\<close>\<close>

fun scan_guessed :: "mode_table \<Rightarrow> string \<Rightarrow> string option" where
  "scan_guessed [] r = None"
| "scan_guessed ((mode, cf) # rest) r =
    (if fst cf = r then Some mode else scan_guessed rest r)"

fun scan_streams :: "mode_table \<Rightarrow> string list \<Rightarrow> string option" where
  "scan_streams g [] = None"
| "scan_streams g (r # rest) =
    (case scan_guessed g r of Some mode \<Rightarrow> Some mode | None \<Rightarrow> scan_streams g rest)"

definition guessMode :: "manager \<Rightarrow> stream_obj \<Rightarrow> error + string" where
  "guessMode s guess_stream =
    (case guess_stream of
       MultipleDetectorStream streams \<Rightarrow>
         (case scan_streams (guessed s) streams of
            Some mode \<Rightarrow> Inr mode
          | None \<Rightarrow> Inl NoModeInferred)
     | Stream r \<Rightarrow>
         (case scan_guessed (guessed s) r of
            Some mode \<Rightarrow> Inr mode
          | None \<Rightarrow> Inl NoModeInferred)
     | Not_a_stream \<Rightarrow> Inl NotAStream)"

fun findNonMirror :: "(val \<times> val) list \<Rightarrow> error + val" where
  "findNonMirror [] = Inl NoNonMirrorGrating"
| "findNonMirror ((key, v) # rest) =
    (if v \<noteq> Str ''mirror'' then Inr key else findNonMirror rest)"

subsection \<open>setPath\<close>

text \<open>
  The loops over the choices of an axis. \<open>find_key\<close> is the loop of the band and the
  grating axis, which stops at the first entry whose value is the target; \<open>reverse_lookup\<close>
  is the loop of any other axis with a dict of choices, which has no \<^verbatim>\<open>break\<close> and goes
  on comparing with the target it has just replaced.
\<close>

fun find_key :: "(val \<times> val) list \<Rightarrow> target \<Rightarrow> val option" where
  "find_key [] pos = None"
| "find_key ((key, v) # rest) pos = (if Lit v = pos then Some key else find_key rest pos)"

fun reverse_lookup :: "(val \<times> val) list \<Rightarrow> target \<Rightarrow> target" where
  "reverse_lookup [] pos = pos"
| "reverse_lookup ((key, v) # rest) pos =
    reverse_lookup rest (if Lit v = pos then Lit key else pos)"

text \<open>The branch \<^verbatim>\<open>axis == "band"\<close> of the loop over the axes of a configuration.\<close>

definition set_band ::
  "backend \<Rightarrow> component \<Rightarrow> axis_def \<Rightarrow> target \<Rightarrow> manager \<Rightarrow> mv \<Rightarrow> (error + mv) \<times> manager" where
  "set_band w cmp ax pos s m =
    (case ax of
       Choices_dict choices \<Rightarrow>
         (case find_key choices pos of
            Some key \<Rightarrow>
              if \<not> in_align (last_mode s)
              then (case position_value w (name cmp) ''band'' of
                      None \<Rightarrow> (Inl KeyError, s)
                    | Some cur \<Rightarrow>
                        (Inr (AList.update ''band'' (Lit key) m),
                         s\<lparr>stored := (stored s)(''band'' \<mapsto> cur)\<rparr>))
              else (Inr (AList.update ''band'' (Lit key) m), s)
          | None \<Rightarrow> (Inr m, debug (Choice_not_present pos ''band'') s))
     | _ \<Rightarrow> (Inl AttributeError, s))"

text \<open>The branch \<^verbatim>\<open>axis == "grating"\<close>.\<close>

definition set_grating ::
  "backend \<Rightarrow> component \<Rightarrow> axis_def \<Rightarrow> target \<Rightarrow> manager \<Rightarrow> mv \<Rightarrow> (error + mv) \<times> manager" where
  "set_grating w cmp ax pos s m =
    (case ax of
       Choices_dict choices \<Rightarrow>
         (case find_key choices pos of
            Some key \<Rightarrow>
              (case position_value w (name cmp) ''grating'' of
                 None \<Rightarrow> (Inl KeyError, s)
               | Some cur \<Rightarrow>
                   (case map_of choices cur of
                      None \<Rightarrow> (Inl KeyError, s)
                    | Some v \<Rightarrow>
                        (Inr (AList.update ''grating'' (Lit key) m),
                         if v \<noteq> Str ''mirror''
                         then s\<lparr>stored := (stored s)(''grating'' \<mapsto> cur)\<rparr>
                         else s)))
          | None \<Rightarrow>
              if pos = Lit (Str ''mirror'')
              then (Inr (AList.update ''wavelength'' (Lit (Num 0)) m), s)
              else (case stored s ''grating'' of
                      Some g \<Rightarrow> (Inr (AList.update ''grating'' (Lit g) m), s)
                    | None \<Rightarrow>
                        (case findNonMirror choices of
                           Inl e \<Rightarrow> (Inl e, s)
                         | Inr key \<Rightarrow> (Inr (AList.update ''grating'' (Lit key) m), s))))
     | _ \<Rightarrow> (Inl AttributeError, s))"

text \<open>The branch \<^verbatim>\<open>axis == "slit-in"\<close>.\<close>

definition set_slit_in ::
  "backend \<Rightarrow> component \<Rightarrow> target \<Rightarrow> manager \<Rightarrow> mv \<Rightarrow> (error + mv) \<times> manager" where
  "set_slit_in w cmp pos s m =
    (if \<not> in_align (last_mode s)
     then (case position_value w (name cmp) ''slit-in'' of
             None \<Rightarrow> (Inl KeyError, s)
           | Some cur \<Rightarrow>
               (Inr (AList.update ''slit-in'' pos m),
                s\<lparr>stored := (stored s)(''slit-in'' \<mapsto> cur)\<rparr>))
     else (Inr (AList.update ''slit-in'' pos m), s))"

text \<open>The body of the loop \<^verbatim>\<open>for axis, pos in conf.items()\<close>.\<close>

definition set_axis ::
  "backend \<Rightarrow> string \<Rightarrow> component \<Rightarrow> string \<Rightarrow> target \<Rightarrow> manager \<Rightarrow> mv
    \<Rightarrow> (error + mv) \<times> manager" where
  "set_axis w comp_role cmp axis pos s m =
    (case map_of (axes cmp) axis of
       None \<Rightarrow> (Inr m, debug (Not_moving_axis comp_role axis) s)
     | Some ax \<Rightarrow>
         if axis = ''band'' then set_band w cmp ax pos s m
         else if axis = ''grating'' then set_grating w cmp ax pos s m
         else if axis = ''slit-in'' then set_slit_in w cmp pos s m
         else (case ax of
                 Choices_dict choices \<Rightarrow>
                   (Inr (AList.update axis (reverse_lookup choices pos) m), s)
               | _ \<Rightarrow> (Inr (AList.update axis pos m), s)))"

fun conf_loop ::
  "backend \<Rightarrow> string \<Rightarrow> component \<Rightarrow> conf \<Rightarrow> manager \<Rightarrow> mv \<Rightarrow> (error + mv) \<times> manager" where
  "conf_loop w comp_role cmp [] s m = (Inr m, s)"
| "conf_loop w comp_role cmp ((axis, pos) # rest) s m =
    (case set_axis w comp_role cmp axis pos s m of
       (Inl e, s1) \<Rightarrow> (Inl e, s1)
     | (Inr m1, s1) \<Rightarrow> conf_loop w comp_role cmp rest s1 m1)"

text \<open>
  The loop \<^verbatim>\<open>for comp_role, conf in modeconf.items()\<close>: a component that is not found
  is skipped; for every other one the move is issued, with whatever \<^verbatim>\<open>mv\<close> holds.
\<close>

fun role_loop ::
  "backend \<Rightarrow> modeconf \<Rightarrow> manager \<Rightarrow> future list \<Rightarrow> (error + future list) \<times> manager" where
  "role_loop w [] s fmoves = (Inr fmoves, s)"
| "role_loop w ((comp_role, cf) # rest) s fmoves =
    (case cached_getComponent w comp_role s of
       (Inl e, s1) \<Rightarrow>
         role_loop w rest (debug (Failed_to_find_component comp_role) s1) fmoves
     | (Inr cmp, s1) \<Rightarrow>
         (case conf_loop w comp_role cmp cf s1 [] of
            (Inl e, s2) \<Rightarrow> (Inl e, s2)
          | (Inr m, s2) \<Rightarrow>
              role_loop w rest (emit (MoveAbs (name cmp) m) s2) (fmoves @ [(name cmp, m)])))"

text \<open>
  One of the two restoring moves of a call that leaves the alignment modes: of the axis
  \<open>axis\<close> of the component of role \<open>r\<close>, when \<open>axis\<close> is in \<^verbatim>\<open>_stored\<close>.
\<close>

definition restore_axis ::
  "backend \<Rightarrow> string \<Rightarrow> string \<Rightarrow> logmsg \<Rightarrow> manager \<Rightarrow> future list
    \<Rightarrow> future list \<times> manager" where
  "restore_axis w r axis msg s fmoves =
    (case stored s axis of
       None \<Rightarrow> (fmoves, s)
     | Some v \<Rightarrow>
         (case cached_getComponent w r s of
            (Inl e, s1) \<Rightarrow> (fmoves, debug msg s1)
          | (Inr cmp, s1) \<Rightarrow>
              (fmoves @ [(name cmp, [(axis, Lit v)])],
               emit (MoveAbs (name cmp) [(axis, Lit v)]) s1)))"

definition restore ::
  "backend \<Rightarrow> string \<Rightarrow> manager \<Rightarrow> future list \<Rightarrow> future list \<times> manager" where
  "restore w mode s fmoves =
    (if in_align (last_mode s) \<and> mode \<notin> set ALIGN_MODES
     then (case restore_axis w ''filter'' ''band'' No_filter_component s fmoves of
             (fmoves1, s1) \<Rightarrow>
               restore_axis w ''spectrograph'' ''slit-in'' No_spectrograph_component s1 fmoves1)
     else (fmoves, s))"

text \<open>The loop \<^verbatim>\<open>for f in fmoves\<close>: every future is waited for, an IOError is logged.\<close>

fun wait_all :: "backend \<Rightarrow> future list \<Rightarrow> manager \<Rightarrow> manager" where
  "wait_all w [] s = s"
| "wait_all w ((n, m) # rest) s =
    (case move_result w n m of
       Done \<Rightarrow> wait_all w rest (emit (Result n m) s)
     | IOError e \<Rightarrow>
         wait_all w rest (debug (Actuator_move_failed e) (emit (Result n m) s)))"

definition setPath :: "backend \<Rightarrow> manager \<Rightarrow> string \<Rightarrow> (error + unit) \<times> manager" where
  "setPath w s mode =
    (case map_of (modes s) mode of
       None \<Rightarrow> (Inl (InvalidMode mode), s)
     | Some (det, modeconf) \<Rightarrow>
         (case role_loop w modeconf s [] of
            (Inl e, s1) \<Rightarrow> (Inl e, s1)
          | (Inr fmoves, s1) \<Rightarrow>
              (case restore w mode s1 fmoves of
                 (fmoves2, s2) \<Rightarrow>
                   (Inr (), wait_all w fmoves2 (s2\<lparr>last_mode := Some mode\<rparr>)))))"

subsection \<open>Reading a trace, sequences of calls\<close>

text \<open>The moves a trace issued and the futures it waited for, in order.\<close>

fun issued :: "event list \<Rightarrow> future list" where
  "issued [] = []"
| "issued (MoveAbs n m # es) = (n, m) # issued es"
| "issued (Result n m # es) = issued es"
| "issued (Debug l # es) = issued es"

fun awaited :: "event list \<Rightarrow> future list" where
  "awaited [] = []"
| "awaited (Result n m # es) = (n, m) # awaited es"
| "awaited (MoveAbs n m # es) = awaited es"
| "awaited (Debug l # es) = awaited es"

text \<open>
  A caller's calls of \<^verbatim>\<open>setPath\<close> one after the other, each on the backend as it is at
  that call, whether they raise or not.
\<close>

fun run_calls :: "(backend \<times> string) list \<Rightarrow> manager \<Rightarrow> manager" where
  "run_calls [] s = s"
| "run_calls ((w, mode) # rest) s = run_calls rest (snd (setPath w s mode))"

text \<open>
  What every step of \<^verbatim>\<open>setPath\<close> before the update of \<^verbatim>\<open>_last_mode\<close> keeps, from a
  state \<open>s\<close> to a later state \<open>s1\<close>: the tables and the last mode; the cache but for new
  entries taken from the registry; the keys of \<^verbatim>\<open>_stored\<close>, its values at every axis
  but band, grating and slit-in, and at band and slit-in when the last mode is an
  alignment mode; the trace but for new events.
\<close>

definition evolves :: "backend \<Rightarrow> manager \<Rightarrow> manager \<Rightarrow> bool" where
  "evolves w s s1 \<longleftrightarrow>
     guessed s1 = guessed s \<and> modes s1 = modes s \<and> last_mode s1 = last_mode s \<and>
     (\<forall>r. known_comps s1 r = known_comps s r \<or>
          (known_comps s r = None \<and> known_comps s1 r = getComponent w r)) \<and>
     dom (stored s) \<subseteq> dom (stored s1) \<and>
     (\<forall>k. k \<noteq> ''band'' \<and> k \<noteq> ''grating'' \<and> k \<noteq> ''slit-in'' \<longrightarrow> stored s1 k = stored s k) \<and>
     (in_align (last_mode s) \<longrightarrow>
        stored s1 ''band'' = stored s ''band'' \<and> stored s1 ''slit-in'' = stored s ''slit-in'') \<and>
     (\<exists>new. trace s1 = trace s @ new)"

subsection \<open>Backends to run the manager on\<close>

text \<open>
  A legacy SPARC with a camera and a filter wheel only, and a SPARC2 with a camera, a
  spectrometer and a spectrograph whose gratings and current position are given.
\<close>

definition camera :: component where
  "camera = \<lparr>name = ''Camera'', role = ''ccd'', axes = []\<rparr>"

definition spectrometer :: component where
  "spectrometer = \<lparr>name = ''Spectrometer'', role = ''spectrometer'', axes = []\<rparr>"

definition filter_wheel :: component where
  "filter_wheel = \<lparr>name = ''Filter Wheel'', role = ''filter'',
     axes = [(''band'', Choices_dict [(Num 3, Str ''green''), (Num 6, Str ''pass-through'')])]\<rparr>"

definition spectrograph :: "(val \<times> val) list \<Rightarrow> component" where
  "spectrograph gratings = \<lparr>name = ''Spectrograph'', role = ''spectrograph'',
     axes = [(''grating'', Choices_dict gratings), (''wavelength'', Range), (''slit-in'', Range)]\<rparr>"

definition sparc_ccd_filter :: backend where
  "sparc_ccd_filter = \<lparr>microscope_role = ''sparc'', components = [camera, filter_wheel],
     position_value = (\<lambda>n. if n = ''Filter Wheel'' then [''band'' \<mapsto> Num 3] else Map.empty),
     move_result = (\<lambda>n m. Done)\<rparr>"

definition sparc2_sim :: "(val \<times> val) list \<Rightarrow> val \<Rightarrow> backend" where
  "sparc2_sim gratings cur = \<lparr>microscope_role = ''sparc2'',
     components = [camera, spectrometer, spectrograph gratings],
     position_value = (\<lambda>n. if n = ''Spectrograph''
        then [''grating'' \<mapsto> cur, ''wavelength'' \<mapsto> Num 0, ''slit-in'' \<mapsto> Num (1 / 10000)]
        else Map.empty),
     move_result = (\<lambda>n m. if n = ''Spectrograph'' then IOError ''stalled'' else Done)\<rparr>"

definition gratings_with_mirror :: "(val \<times> val) list" where
  "gratings_with_mirror = [(Str ''g1'', Str ''600gmm''), (Str ''g2'', Str ''mirror'')]"

definition gratings_without_mirror :: "(val \<times> val) list" where
  "gratings_without_mirror = [(Str ''g1'', Str ''600gmm''), (Str ''g3'', Str ''1200gmm'')]"

text \<open>
  The restoring move that a call leaving the alignment modes owes for an axis, read off the
  manager \<open>s\<close> as it is when the call starts: none when \<^verbatim>\<open>_stored\<close> has no value for the
  axis or the component of role \<open>r\<close> is not found, else the move of that component to the
  stored value.
\<close>

definition restoring_move :: "backend \<Rightarrow> manager \<Rightarrow> string \<Rightarrow> string \<Rightarrow> future list" where
  "restoring_move w s r axis =
    (case stored s axis of
       None \<Rightarrow> []
     | Some v \<Rightarrow>
        (case fst (cached_getComponent w r s) of
           Inl e \<Rightarrow> []
         | Inr cmp \<Rightarrow> [(name cmp, [(axis, Lit v)])]))"

text \<open>A legacy SPARC with a spectrometer, a lens switch, a filter wheel and a spectrograph.\<close>

definition lens_switch :: component where
  "lens_switch = \<lparr>name = ''Lens Switch'', role = ''lens-switch'', axes = [(''rx'', Range)]\<rparr>"

definition sparc_sim :: backend where
  "sparc_sim = \<lparr>microscope_role = ''sparc'',
     components = [camera, spectrometer, lens_switch, filter_wheel,
                   spectrograph gratings_with_mirror],
     position_value = (\<lambda>n.
        if n = ''Filter Wheel'' then [''band'' \<mapsto> Num 3]
        else if n = ''Spectrograph''
          then [''grating'' \<mapsto> Str ''g1'', ''wavelength'' \<mapsto> Num 0, ''slit-in'' \<mapsto> Num (1 / 10000)]
        else if n = ''Lens Switch'' then [''rx'' \<mapsto> Num 0]
        else Map.empty),
     move_result = (\<lambda>n m. Done)\<rparr>"

text \<open>The manager of that SPARC after a call for the alignment mode \<open>fiber-align\<close>.\<close>

definition after_fiber_align :: manager where
  "after_fiber_align = snd (setPath sparc_sim (init sparc_sim) ''fiber-align'')"

text \<open>The manager of the SPARC with a camera and a filter wheel after a call for the
  alignment mode \<open>mirror-align\<close>.\<close>

definition after_mirror_align :: manager where
  "after_mirror_align = snd (setPath sparc_ccd_filter (init sparc_ccd_filter) ''mirror-align'')"

text \<open>
  A SPARC2 with a lens switch and a spectrograph whose only grating position is the
  mirror, and its manager after a call for the alignment mode \<open>spec-focus\<close>.
\<close>

definition gratings_only_mirror :: "(val \<times> val) list" where
  "gratings_only_mirror = [(Str ''g2'', Str ''mirror'')]"

definition lens_switch2 :: component where
  "lens_switch2 = \<lparr>name = ''Lens Switch'', role = ''lens-switch'',
     axes = [(''x'', Choices_dict [(Num 0, Str ''on''), (Num 1, Str ''off'')])]\<rparr>"

definition sparc2_only_mirror :: backend where
  "sparc2_only_mirror = \<lparr>microscope_role = ''sparc2'',
     components = [camera, spectrometer, lens_switch2, spectrograph gratings_only_mirror],
     position_value = (\<lambda>n.
        if n = ''Spectrograph''
          then [''grating'' \<mapsto> Str ''g2'', ''wavelength'' \<mapsto> Num 0, ''slit-in'' \<mapsto> Num (1 / 10000)]
        else if n = ''Lens Switch'' then [''x'' \<mapsto> Num 0]
        else Map.empty),
     move_result = (\<lambda>n m. Done)\<rparr>"

definition after_spec_focus :: manager where
  "after_spec_focus = snd (setPath sparc2_only_mirror (init sparc2_only_mirror) ''spec-focus'')"

text \<open>
  Two managers that differ at most in what \<^verbatim>\<open>_stored\<close> holds for the axes \<open>band\<close> and
  \<open>slit-in\<close>.
\<close>

definition same_but_band_slit :: "manager \<Rightarrow> manager \<Rightarrow> bool" where
  "same_but_band_slit s t \<longleftrightarrow>
     guessed t = guessed s \<and> modes t = modes s \<and> known_comps t = known_comps s \<and>
     last_mode t = last_mode s \<and> trace t = trace s \<and>
     (\<forall>k. k \<noteq> ''band'' \<and> k \<noteq> ''slit-in'' \<longrightarrow> stored t k = stored s k)"

text \<open>
  A SPARC2 whose spectrograph has two gratings and the mirror and stands on the second
  grating, and its manager after a call for the mode \<open>ar\<close>.
\<close>

definition gratings_three :: "(val \<times> val) list" where
  "gratings_three =
     [(Str ''g1'', Str ''600gmm''), (Str ''g2'', Str ''mirror''), (Str ''g3'', Str ''1200gmm'')]"

definition after_ar :: manager where
  "after_ar = snd (setPath (sparc2_sim gratings_three (Str ''g3''))
                    (init (sparc2_sim gratings_three (Str ''g3''))) ''ar'')"

section \<open>Properties\<close>

subsection \<open>What a call keeps\<close>

lemma evolves_refl: "evolves w s s"
  by (simp add: evolves_def)

lemma evolves_tables:
  "evolves w s s1 \<Longrightarrow> guessed s1 = guessed s \<and> modes s1 = modes s \<and> last_mode s1 = last_mode s"
  by (simp add: evolves_def)

lemma evolves_cache:
  "evolves w s s1 \<Longrightarrow> known_comps s1 r = known_comps s r \<or>
     (known_comps s r = None \<and> known_comps s1 r = getComponent w r)"
  by (simp add: evolves_def)

lemma evolves_dom: "evolves w s s1 \<Longrightarrow> dom (stored s) \<subseteq> dom (stored s1)"
  by (simp add: evolves_def)

lemma evolves_other:
  "evolves w s s1 \<Longrightarrow> k \<noteq> ''band'' \<Longrightarrow> k \<noteq> ''grating'' \<Longrightarrow> k \<noteq> ''slit-in'' \<Longrightarrow>
     stored s1 k = stored s k"
  by (simp add: evolves_def)

lemma evolves_aligned:
  "evolves w s s1 \<Longrightarrow> in_align (last_mode s) \<Longrightarrow>
     stored s1 ''band'' = stored s ''band'' \<and> stored s1 ''slit-in'' = stored s ''slit-in''"
  by (simp add: evolves_def)

lemma evolves_trace: "evolves w s s1 \<Longrightarrow> \<exists>new. trace s1 = trace s @ new"
  by (simp add: evolves_def)

lemma evolves_trans:
  assumes ab: "evolves w a b" and bc: "evolves w b c"
  shows "evolves w a c"
proof -
  note tab = evolves_tables[OF ab] evolves_tables[OF bc]
  have cache: "\<forall>r. known_comps c r = known_comps a r \<or>
         (known_comps a r = None \<and> known_comps c r = getComponent w r)"
  proof
    fix r
    from evolves_cache[OF ab, of r] evolves_cache[OF bc, of r]
    show "known_comps c r = known_comps a r \<or>
         (known_comps a r = None \<and> known_comps c r = getComponent w r)"
      by auto
  qed
  have d: "dom (stored a) \<subseteq> dom (stored c)"
    using evolves_dom[OF ab] evolves_dom[OF bc] by (rule subset_trans)
  have other: "\<forall>k. k \<noteq> ''band'' \<and> k \<noteq> ''grating'' \<and> k \<noteq> ''slit-in'' \<longrightarrow>
      stored c k = stored a k"
    using evolves_other[OF ab] evolves_other[OF bc] by simp
  have al: "in_align (last_mode a) \<longrightarrow>
      stored c ''band'' = stored a ''band'' \<and> stored c ''slit-in'' = stored a ''slit-in''"
    using evolves_aligned[OF ab] evolves_aligned[OF bc] tab by simp
  have tr: "\<exists>new. trace c = trace a @ new"
  proof -
    from evolves_trace[OF ab] obtain n1 where "trace b = trace a @ n1" ..
    moreover from evolves_trace[OF bc] obtain n2 where "trace c = trace b @ n2" ..
    ultimately have "trace c = trace a @ (n1 @ n2)" by simp
    then show ?thesis ..
  qed
  show ?thesis
    unfolding evolves_def
    apply (intro conjI)
           apply (simp add: tab)
          apply (simp add: tab)
         apply (simp add: tab)
        apply (rule cache)
       apply (rule d)
      apply (rule other)
     apply (rule al)
    apply (rule tr)
    done
qed

lemma evolves_emit: "evolves w s (emit e s)"
  by (simp add: evolves_def emit_def)

lemma evolves_debug: "evolves w s (debug l s)"
  by (simp add: debug_def evolves_emit)

lemma evolves_cached_getComponent: "evolves w s (snd (cached_getComponent w r s))"
  by (auto simp: cached_getComponent_def evolves_def split: option.splits)

lemma findNonMirror_error: "findNonMirror choices = Inl e \<Longrightarrow> e = NoNonMirrorGrating"
  by (induction choices) (auto split: if_splits)

lemma evolves_store_band:
  "\<not> in_align (last_mode s) \<Longrightarrow> evolves w s (s\<lparr>stored := (stored s)(''band'' \<mapsto> v)\<rparr>)"
  unfolding evolves_def by (simp add: subset_insertI)

lemma evolves_store_slit_in:
  "\<not> in_align (last_mode s) \<Longrightarrow> evolves w s (s\<lparr>stored := (stored s)(''slit-in'' \<mapsto> v)\<rparr>)"
  unfolding evolves_def by (simp add: subset_insertI)

lemma evolves_store_grating:
  "evolves w s (s\<lparr>stored := (stored s)(''grating'' \<mapsto> v)\<rparr>)"
  unfolding evolves_def by (simp add: subset_insertI)

lemma evolves_set_band: "evolves w s (snd (set_band w cmp ax pos s m))"
  by (simp add: set_band_def evolves_refl evolves_debug evolves_store_band
      split: option.splits axis_def.splits)

lemma evolves_set_grating: "evolves w s (snd (set_grating w cmp ax pos s m))"
  by (simp add: set_grating_def evolves_refl evolves_store_grating
      split: option.splits axis_def.splits sum.splits)

lemma evolves_set_slit_in: "evolves w s (snd (set_slit_in w cmp pos s m))"
  by (simp add: set_slit_in_def evolves_refl evolves_store_slit_in split: option.splits)

lemma evolves_set_axis: "evolves w s (snd (set_axis w comp_role cmp axis pos s m))"
  by (simp add: set_axis_def evolves_set_band evolves_set_grating evolves_set_slit_in
      evolves_debug evolves_refl split: option.splits axis_def.splits)

lemma evolves_conf_loop: "evolves w s (snd (conf_loop w comp_role cmp cf s m))"
proof (induction cf arbitrary: s m)
  case Nil
  show ?case by (simp add: evolves_refl)
next
  case (Cons a cf)
  obtain axis pos where a: "a = (axis, pos)" by (cases a)
  obtain r s2 where st: "set_axis w comp_role cmp axis pos s m = (r, s2)"
    by (cases "set_axis w comp_role cmp axis pos s m")
  from evolves_set_axis[of w s comp_role cmp axis pos m] st have e1: "evolves w s s2" by simp
  show ?case
  proof (cases r)
    case (Inl e)
    with a st e1 show ?thesis by simp
  next
    case (Inr m1)
    with a st have "snd (conf_loop w comp_role cmp (a # cf) s m) =
                    snd (conf_loop w comp_role cmp cf s2 m1)" by simp
    with evolves_trans[OF e1 Cons.IH[of s2 m1]] show ?thesis by simp
  qed
qed

lemma evolves_role_loop: "evolves w s (snd (role_loop w mc s fm))"
proof (induction mc arbitrary: s fm)
  case Nil
  show ?case by (simp add: evolves_refl)
next
  case (Cons a mc)
  obtain comp_role cf where a: "a = (comp_role, cf)" by (cases a)
  obtain r s2 where g: "cached_getComponent w comp_role s = (r, s2)"
    by (cases "cached_getComponent w comp_role s")
  from evolves_cached_getComponent[of w s comp_role] g have e1: "evolves w s s2" by simp
  show ?case
  proof (cases r)
    case (Inl e)
    let ?s3 = "debug (Failed_to_find_component comp_role) s2"
    from a g Inl have "snd (role_loop w (a # mc) s fm) = snd (role_loop w mc ?s3 fm)"
      by simp
    moreover have "evolves w s ?s3"
      using evolves_trans[OF e1 evolves_debug] .
    ultimately show ?thesis
      using evolves_trans[OF _ Cons.IH[of ?s3 fm]] by simp
  next
    case (Inr cmp)
    obtain r3 s3 where c: "conf_loop w comp_role cmp cf s2 [] = (r3, s3)"
      by (cases "conf_loop w comp_role cmp cf s2 []")
    from evolves_conf_loop[of w s2 comp_role cmp cf "[]"] c have "evolves w s2 s3" by simp
    with e1 have e2: "evolves w s s3" by (rule evolves_trans)
    show ?thesis
    proof (cases r3)
      case (Inl e)
      with a g \<open>r = Inr cmp\<close> c e2 show ?thesis by simp
    next
      case (Inr m)
      let ?s4 = "emit (MoveAbs (name cmp) m) s3"
      from a g \<open>r = Inr cmp\<close> c Inr
      have "snd (role_loop w (a # mc) s fm) =
            snd (role_loop w mc ?s4 (fm @ [(name cmp, m)]))" by simp
      moreover have "evolves w s ?s4"
        using evolves_trans[OF e2 evolves_emit] .
      ultimately show ?thesis
        using evolves_trans[OF _ Cons.IH[of ?s4 "fm @ [(name cmp, m)]"]] by simp
    qed
  qed
qed

lemma evolves_restore_axis: "evolves w s (snd (restore_axis w r axis msg s fm))"
proof (cases "stored s axis")
  case None
  then show ?thesis by (simp add: restore_axis_def evolves_refl)
next
  case (Some v)
  obtain res s1 where g: "cached_getComponent w r s = (res, s1)"
    by (cases "cached_getComponent w r s")
  from evolves_cached_getComponent[of w s r] g have e1: "evolves w s s1" by simp
  show ?thesis
  proof (cases res)
    case (Inl e)
    with Some g evolves_trans[OF e1 evolves_debug] show ?thesis
      by (simp add: restore_axis_def)
  next
    case (Inr cmp)
    with Some g evolves_trans[OF e1 evolves_emit] show ?thesis
      by (simp add: restore_axis_def)
  qed
qed

lemma evolves_restore: "evolves w s (snd (restore w mode s fm))"
proof (cases "in_align (last_mode s) \<and> mode \<notin> set ALIGN_MODES")
  case False
  then show ?thesis by (auto simp: restore_def evolves_refl)
next
  case True
  obtain fm1 s1 where r1: "restore_axis w ''filter'' ''band'' No_filter_component s fm = (fm1, s1)"
    by (cases "restore_axis w ''filter'' ''band'' No_filter_component s fm")
  from evolves_restore_axis[of w s "''filter''" "''band''" No_filter_component fm] r1
  have "evolves w s s1" by simp
  from evolves_trans[OF this evolves_restore_axis] True r1 show ?thesis
    by (simp add: restore_def)
qed

lemma evolves_wait_all: "evolves w s (wait_all w fm s)"
proof (induction fm arbitrary: s)
  case Nil
  show ?case by (simp add: evolves_refl)
next
  case (Cons f fm)
  obtain n m where f: "f = (n, m)" by (cases f)
  show ?case
  proof (cases "move_result w n m")
    case Done
    with f evolves_trans[OF evolves_emit Cons.IH] show ?thesis by simp
  next
    case (IOError e)
    have "evolves w s (debug (Actuator_move_failed e) (emit (Result n m) s))"
      using evolves_trans[OF evolves_emit evolves_debug] .
    from evolves_trans[OF this Cons.IH] f IOError show ?thesis by simp
  qed
qed

subsection \<open>The errors of the loops\<close>

lemma set_axis_error:
  "set_axis w comp_role cmp axis pos s m = (Inl e, s1) \<Longrightarrow>
     e = KeyError \<or> e = AttributeError \<or> e = NoNonMirrorGrating"
  by (auto simp: set_axis_def set_band_def set_grating_def set_slit_in_def
      split: option.splits axis_def.splits if_splits sum.splits dest: findNonMirror_error)

lemma conf_loop_error:
  "conf_loop w comp_role cmp cf s m = (Inl e, s1) \<Longrightarrow>
     e = KeyError \<or> e = AttributeError \<or> e = NoNonMirrorGrating"
proof (induction cf arbitrary: s m)
  case Nil
  then show ?case by simp
next
  case (Cons a cf)
  obtain axis pos where a: "a = (axis, pos)" by (cases a)
  obtain r s2 where st: "set_axis w comp_role cmp axis pos s m = (r, s2)"
    by (cases "set_axis w comp_role cmp axis pos s m")
  show ?case
  proof (cases r)
    case (Inl e')
    with Cons.prems a st have "e' = e" by simp
    with Inl st set_axis_error show ?thesis by blast
  next
    case (Inr m1)
    with Cons.prems a st have "conf_loop w comp_role cmp cf s2 m1 = (Inl e, s1)" by simp
    from Cons.IH[OF this] show ?thesis .
  qed
qed

lemma role_loop_error:
  "role_loop w mc s fm = (Inl e, s1) \<Longrightarrow>
     e = KeyError \<or> e = AttributeError \<or> e = NoNonMirrorGrating"
proof (induction mc arbitrary: s fm)
  case Nil
  then show ?case by simp
next
  case (Cons a mc)
  obtain comp_role cf where a: "a = (comp_role, cf)" by (cases a)
  obtain r s2 where g: "cached_getComponent w comp_role s = (r, s2)"
    by (cases "cached_getComponent w comp_role s")
  show ?case
  proof (cases r)
    case (Inl e')
    with Cons.prems a g
    have "role_loop w mc (debug (Failed_to_find_component comp_role) s2) fm = (Inl e, s1)"
      by simp
    from Cons.IH[OF this] show ?thesis .
  next
    case (Inr cmp)
    obtain r3 s3 where c: "conf_loop w comp_role cmp cf s2 [] = (r3, s3)"
      by (cases "conf_loop w comp_role cmp cf s2 []")
    show ?thesis
    proof (cases r3)
      case (Inl e')
      with Cons.prems a g Inr c have "e' = e" by simp
      with Inl c conf_loop_error show ?thesis by blast
    next
      case (Inr m)
      with Cons.prems a g \<open>r = Inr cmp\<close> c
      have "role_loop w mc (emit (MoveAbs (name cmp) m) s3) (fm @ [(name cmp, m)]) = (Inl e, s1)"
        by simp
      from Cons.IH[OF this] show ?thesis .
    qed
  qed
qed

subsection \<open>The tables\<close>

lemma scan_guessed_key: "scan_guessed g r = Some m \<Longrightarrow> m \<in> fst ` set g"
  by (induction g) (auto split: if_splits)

lemma scan_streams_key: "scan_streams g rs = Some m \<Longrightarrow> m \<in> fst ` set g"
  by (induction rs) (auto split: option.splits dest: scan_guessed_key)

lemma guessMode_key: "guessMode s x = Inr m \<Longrightarrow> m \<in> fst ` set (guessed s)"
  by (cases x)
    (auto simp: guessMode_def split: option.splits dest: scan_guessed_key scan_streams_key)

lemma keys_delete: "fst ` set (AList.delete k t) = fst ` set t - {k}"
  by (induction t) auto

lemma keys_fold_delete: "fst ` set (fold AList.delete ks t) = fst ` set t - set ks"
  by (induction ks arbitrary: t) (auto simp: keys_delete)

lemma remove_unsupported_guessed: "guessed (remove_unsupported w ms s) = guessed s"
proof (induction ms arbitrary: s)
  case Nil
  show ?case by simp
next
  case (Cons a ms)
  obtain m det cf where a: "a = (m, det, cf)" by (cases a)
  obtain r s1 where g: "cached_getComponent w det s = (r, s1)"
    by (cases "cached_getComponent w det s")
  from evolves_tables[OF evolves_cached_getComponent[of w s det]] g
  have "guessed s1 = guessed s" by simp
  with a g Cons.IH show ?case
    by (cases r) (simp_all add: debug_def emit_def)
qed

lemma guessed_init_keys: "fst ` set (guessed (init w)) \<inter> set ALIGN_MODES = {}"
proof -
  have "fst ` set (guessed (init w)) \<subseteq>
        fst ` set (if microscope_role w = ''sparc2'' then SPARC2_MODES else SPARC_MODES)
          - set ALIGN_MODES"
    unfolding init_def Let_def
    by (simp add: remove_unsupported_guessed keys_delete keys_fold_delete)
  then show ?thesis by blast
qed

lemma setPath_tables:
  "guessed (snd (setPath w s mode)) = guessed s \<and> modes (snd (setPath w s mode)) = modes s"
proof (cases "map_of (modes s) mode")
  case None
  then show ?thesis by (simp add: setPath_def)
next
  case (Some a)
  obtain det mc where a: "a = (det, mc)" by (cases a)
  obtain r s1 where rl: "role_loop w mc s [] = (r, s1)" by (cases "role_loop w mc s []")
  from evolves_tables[OF evolves_role_loop[of w s mc "[]"]] rl
  have t1: "guessed s1 = guessed s \<and> modes s1 = modes s" by simp
  show ?thesis
  proof (cases r)
    case (Inl e)
    with Some a rl t1 show ?thesis by (simp add: setPath_def)
  next
    case (Inr fm)
    obtain fm2 s2 where rs: "restore w mode s1 fm = (fm2, s2)"
      by (cases "restore w mode s1 fm")
    from evolves_tables[OF evolves_restore[of w s1 mode fm]] rs
    have t2: "guessed s2 = guessed s1 \<and> modes s2 = modes s1" by simp
    from evolves_tables[OF evolves_wait_all[of w "s2\<lparr>last_mode := Some mode\<rparr>" fm2]]
    have "guessed (wait_all w fm2 (s2\<lparr>last_mode := Some mode\<rparr>)) = guessed s2 \<and>
          modes (wait_all w fm2 (s2\<lparr>last_mode := Some mode\<rparr>)) = modes s2" by simp
    with Some a rl Inr rs t1 t2 show ?thesis by (simp add: setPath_def)
  qed
qed

lemma run_calls_tables:
  "guessed (run_calls cs s) = guessed s \<and> modes (run_calls cs s) = modes s"
proof (induction cs arbitrary: s)
  case Nil
  show ?case by simp
next
  case (Cons c cs)
  obtain w mode where c: "c = (w, mode)" by (cases c)
  with Cons.IH[of "snd (setPath w s mode)"] setPath_tables[of w s mode] show ?case by simp
qed

subsection \<open>The scan of the guess table\<close>

lemma scan_guessed_None: "scan_guessed g r = None \<longleftrightarrow> r \<notin> (\<lambda>e. fst (snd e)) ` set g"
  by (induction g) (auto split: if_splits)

lemma scan_guessed_first:
  "r \<notin> (\<lambda>e. fst (snd e)) ` set pre \<Longrightarrow> scan_guessed (pre @ (m, r, cf) # post) r = Some m"
  by (induction pre) auto

lemma scan_guessed_Some:
  "scan_guessed g r = Some m \<Longrightarrow>
     \<exists>pre cf post. g = pre @ (m, r, cf) # post \<and> r \<notin> (\<lambda>e. fst (snd e)) ` set pre"
proof (induction g)
  case Nil
  then show ?case by simp
next
  case (Cons a g)
  obtain m' d cf' where a: "a = (m', d, cf')" by (cases a)
  show ?case
  proof (cases "d = r")
    case True
    with Cons.prems a have "m' = m" by simp
    with True a have "a # g = [] @ (m, r, cf') # g \<and> r \<notin> (\<lambda>e. fst (snd e)) ` set []"
      by simp
    then show ?thesis by blast
  next
    case False
    with Cons.prems a have "scan_guessed g r = Some m" by simp
    from Cons.IH[OF this] obtain pre cf post where
      g: "g = pre @ (m, r, cf) # post" and n: "r \<notin> (\<lambda>e. fst (snd e)) ` set pre" by blast
    from g n False a
    have "a # g = (a # pre) @ (m, r, cf) # post \<and> r \<notin> (\<lambda>e. fst (snd e)) ` set (a # pre)"
      by simp
    then show ?thesis by blast
  qed
qed

subsection \<open>The modes the constructor keeps\<close>

lemma getComponent_Some:
  "getComponent w r = Some c \<Longrightarrow> role c = r \<and> c \<in> set (components w)"
  unfolding getComponent_def by (auto simp: find_Some_iff)

lemma cached_getComponent_cache_ok:
  assumes "\<forall>r c. known_comps s r = Some c \<longrightarrow> getComponent w r = Some c"
    and "cached_getComponent w det s = (res, s1)"
  shows "(\<forall>r c. known_comps s1 r = Some c \<longrightarrow> getComponent w r = Some c) \<and>
         modes s1 = modes s \<and>
         (case res of Inl e \<Rightarrow> getComponent w det = None | Inr c \<Rightarrow> getComponent w det = Some c)"
  using assms by (auto simp: cached_getComponent_def split: option.splits if_splits)

lemma set_delete: "x \<in> set (AList.delete k t) \<Longrightarrow> x \<in> set t \<and> fst x \<noteq> k"
  by (induction t) (auto split: if_splits)

lemma remove_unsupported_modes:
  assumes "\<forall>r c. known_comps s r = Some c \<longrightarrow> getComponent w r = Some c"
    and "(m, det, cf) \<in> set (modes (remove_unsupported w ms s))"
  shows "(m, det, cf) \<in> set (modes s) \<and>
         ((m, det, cf) \<in> set ms \<longrightarrow> getComponent w det \<noteq> None)"
  using assms
proof (induction ms arbitrary: s)
  case Nil
  then show ?case by simp
next
  case (Cons a ms)
  obtain m0 det0 cf0 where a: "a = (m0, det0, cf0)" by (cases a)
  obtain res s1 where g: "cached_getComponent w det0 s = (res, s1)"
    by (cases "cached_getComponent w det0 s")
  note ok = cached_getComponent_cache_ok[OF Cons.prems(1) g]
  show ?case
  proof (cases res)
    case (Inl e)
    let ?s2 = "(debug (Removing_mode m0) s1)\<lparr>modes := AList.delete m0 (modes s1)\<rparr>"
    from ok have c2: "\<forall>r c. known_comps ?s2 r = Some c \<longrightarrow> getComponent w r = Some c"
      by (simp add: debug_def emit_def)
    from Cons.prems(2) a g Inl
    have "(m, det, cf) \<in> set (modes (remove_unsupported w ms ?s2))" by simp
    from Cons.IH[OF c2 this]
    have in2: "(m, det, cf) \<in> set (modes ?s2)"
      and rest: "(m, det, cf) \<in> set ms \<longrightarrow> getComponent w det \<noteq> None" by blast+
    from in2 have "(m, det, cf) \<in> set (AList.delete m0 (modes s1))" by simp
    from set_delete[OF this] ok have "(m, det, cf) \<in> set (modes s)" and "m \<noteq> m0" by simp_all
    with rest a show ?thesis by simp
  next
    case (Inr c)
    from ok have c1: "\<forall>r c. known_comps s1 r = Some c \<longrightarrow> getComponent w r = Some c"
      by blast
    from Cons.prems(2) a g Inr
    have "(m, det, cf) \<in> set (modes (remove_unsupported w ms s1))" by simp
    from Cons.IH[OF c1 this] ok
    have in1: "(m, det, cf) \<in> set (modes s)"
      and rest: "(m, det, cf) \<in> set ms \<longrightarrow> getComponent w det \<noteq> None" by simp_all
    from ok Inr have "getComponent w det0 = Some c" by simp
    with in1 rest a show ?thesis by auto
  qed
qed

lemma modes_init_supported:
  assumes "(m, det, cf) \<in> set (modes (init w))"
  shows "getComponent w det \<noteq> None"
proof -
  let ?base = "if microscope_role w = ''sparc2'' then SPARC2_MODES else SPARC_MODES"
  let ?s0 = "\<lparr>guessed = fold AList.delete ALIGN_MODES ?base, modes = ?base,
               known_comps = Map.empty, stored = Map.empty, last_mode = None, trace = []\<rparr>"
  have m: "modes (init w) = modes (remove_unsupported w ?base ?s0)"
    by (simp add: init_def Let_def)
  have c0: "\<forall>r c. known_comps ?s0 r = Some c \<longrightarrow> getComponent w r = Some c" by simp
  from assms m have "(m, det, cf) \<in> set (modes (remove_unsupported w ?base ?s0))" by simp
  from remove_unsupported_modes[OF c0 this] show ?thesis by simp
qed

subsection \<open>The grating axis\<close>

lemma find_key_None: "find_key choices pos = None \<longleftrightarrow> pos \<notin> Lit ` snd ` set choices"
  by (induction choices) (auto split: if_splits)

lemma find_key_sentinel: "find_key choices GRATING_NOT_MIRROR = None"
  by (simp add: find_key_None image_iff)

lemma findNonMirror_None:
  "findNonMirror choices = Inl NoNonMirrorGrating \<longleftrightarrow> snd ` set choices \<subseteq> {Str ''mirror''}"
  by (induction choices) (auto split: if_splits)

lemma findNonMirror_first:
  "snd ` set pre \<subseteq> {Str ''mirror''} \<Longrightarrow> v \<noteq> Str ''mirror'' \<Longrightarrow>
     findNonMirror (pre @ (key, v) # post) = Inr key"
  by (induction pre) auto

lemma findNonMirror_Some:
  "findNonMirror choices = Inr key \<Longrightarrow>
     \<exists>pre v post. choices = pre @ (key, v) # post \<and> v \<noteq> Str ''mirror'' \<and>
        snd ` set pre \<subseteq> {Str ''mirror''}"
proof (induction choices)
  case Nil
  then show ?case by simp
next
  case (Cons a choices)
  obtain k v where a: "a = (k, v)" by (cases a)
  show ?case
  proof (cases "v = Str ''mirror''")
    case False
    with Cons.prems a have "k = key" by simp
    with False a have "a # choices = [] @ (key, v) # choices \<and> v \<noteq> Str ''mirror'' \<and>
        snd ` set [] \<subseteq> {Str ''mirror''}" by simp
    then show ?thesis by blast
  next
    case True
    with Cons.prems a have "findNonMirror choices = Inr key" by simp
    from Cons.IH[OF this] obtain pre v' post where
      c: "choices = pre @ (key, v') # post" and v: "v' \<noteq> Str ''mirror''"
      and p: "snd ` set pre \<subseteq> {Str ''mirror''}" by blast
    from c v p True a
    have "a # choices = (a # pre) @ (key, v') # post \<and> v' \<noteq> Str ''mirror'' \<and>
        snd ` set (a # pre) \<subseteq> {Str ''mirror''}" by simp
    then show ?thesis by blast
  qed
qed

lemma set_axis_grating:
  "map_of (axes cmp) ''grating'' = Some ax \<Longrightarrow>
     set_axis w comp_role cmp ''grating'' pos s m = set_grating w cmp ax pos s m"
  by (simp add: set_axis_def)

lemma set_axis_mirror:
  assumes ax: "map_of (axes cmp) ''grating'' = Some (Choices_dict choices)"
    and nomirror: "Str ''mirror'' \<notin> snd ` set choices"
  shows "set_axis w comp_role cmp ''grating'' (Lit (Str ''mirror'')) s m =
           (Inr (AList.update ''wavelength'' (Lit (Num 0)) m), s)"
proof -
  from nomirror have fk: "find_key choices (Lit (Str ''mirror'')) = None"
    by (simp add: find_key_None image_iff)
  have "set_axis w comp_role cmp ''grating'' (Lit (Str ''mirror'')) s m =
        set_grating w cmp (Choices_dict choices) (Lit (Str ''mirror'')) s m"
    using ax by (rule set_axis_grating)
  also have "\<dots> = (Inr (AList.update ''wavelength'' (Lit (Num 0)) m), s)"
    by (simp add: set_grating_def fk)
  finally show ?thesis .
qed

subsection \<open>The events of a call\<close>

lemma issued_append: "issued (a @ b) = issued a @ issued b"
  by (induction a rule: issued.induct) simp_all

lemma awaited_append: "awaited (a @ b) = awaited a @ awaited b"
  by (induction a rule: awaited.induct) simp_all

lemma cached_getComponent_trace: "trace (snd (cached_getComponent w r s)) = trace s"
  by (simp add: cached_getComponent_def split: option.splits)

lemma set_axis_quiet:
  "\<exists>new. trace (snd (set_axis w comp_role cmp axis pos s m)) = trace s @ new \<and>
     issued new = [] \<and> awaited new = []"
proof -
  have "trace (snd (set_axis w comp_role cmp axis pos s m)) = trace s \<or>
        (\<exists>l. trace (snd (set_axis w comp_role cmp axis pos s m)) = trace s @ [Debug l])"
    by (simp add: set_axis_def set_band_def set_grating_def set_slit_in_def debug_def emit_def
        split: option.splits axis_def.splits sum.splits)
  then show ?thesis
  proof
    assume "trace (snd (set_axis w comp_role cmp axis pos s m)) = trace s"
    then have "trace (snd (set_axis w comp_role cmp axis pos s m)) = trace s @ [] \<and>
      issued [] = [] \<and> awaited [] = []" by simp
    then show ?thesis by blast
  next
    assume "\<exists>l. trace (snd (set_axis w comp_role cmp axis pos s m)) = trace s @ [Debug l]"
    then obtain l where "trace (snd (set_axis w comp_role cmp axis pos s m)) = trace s @ [Debug l]" ..
    then have "trace (snd (set_axis w comp_role cmp axis pos s m)) = trace s @ [Debug l] \<and>
      issued [Debug l] = [] \<and> awaited [Debug l] = []" by simp
    then show ?thesis by blast
  qed
qed

lemma conf_loop_quiet:
  "\<exists>new. trace (snd (conf_loop w comp_role cmp cf s m)) = trace s @ new \<and>
     issued new = [] \<and> awaited new = []"
proof (induction cf arbitrary: s m)
  case Nil
  have "trace (snd (conf_loop w comp_role cmp [] s m)) = trace s @ [] \<and>
      issued [] = [] \<and> awaited [] = []" by simp
  then show ?case by blast
next
  case (Cons a cf)
  obtain axis pos where a: "a = (axis, pos)" by (cases a)
  obtain r s2 where st: "set_axis w comp_role cmp axis pos s m = (r, s2)"
    by (cases "set_axis w comp_role cmp axis pos s m")
  from set_axis_quiet[of w comp_role cmp axis pos s m] st
  obtain n1 where n1: "trace s2 = trace s @ n1" "issued n1 = []" "awaited n1 = []" by auto
  show ?case
  proof (cases r)
    case (Inl e)
    with a st n1 show ?thesis by auto
  next
    case (Inr m1)
    from Cons.IH[of s2 m1] obtain n2 where
      n2: "trace (snd (conf_loop w comp_role cmp cf s2 m1)) = trace s2 @ n2"
        "issued n2 = []" "awaited n2 = []" by auto
    from a st Inr n1 n2
    have "trace (snd (conf_loop w comp_role cmp (a # cf) s m)) = trace s @ (n1 @ n2) \<and>
      issued (n1 @ n2) = [] \<and> awaited (n1 @ n2) = []"
      by (simp add: issued_append awaited_append)
    then show ?thesis by blast
  qed
qed

lemma role_loop_new:
  "role_loop w mc s fm = (Inr fm1, s1) \<Longrightarrow>
     \<exists>new. trace s1 = trace s @ new \<and> fm1 = fm @ issued new \<and> awaited new = []"
proof (induction mc arbitrary: s fm)
  case Nil
  then have "trace s1 = trace s @ [] \<and> fm1 = fm @ issued [] \<and> awaited [] = []" by simp
  then show ?case by blast
next
  case (Cons a mc)
  obtain comp_role cf where a: "a = (comp_role, cf)" by (cases a)
  obtain r s2 where g: "cached_getComponent w comp_role s = (r, s2)"
    by (cases "cached_getComponent w comp_role s")
  from cached_getComponent_trace[of w comp_role s] g have t2: "trace s2 = trace s" by simp
  show ?case
  proof (cases r)
    case (Inl e)
    let ?s3 = "debug (Failed_to_find_component comp_role) s2"
    from Cons.prems a g Inl have "role_loop w mc ?s3 fm = (Inr fm1, s1)" by simp
    from Cons.IH[OF this] obtain n where
      n: "trace s1 = trace ?s3 @ n" "fm1 = fm @ issued n" "awaited n = []" by auto
    let ?new = "Debug (Failed_to_find_component comp_role) # n"
    from n t2 have "trace s1 = trace s @ ?new \<and> fm1 = fm @ issued ?new \<and> awaited ?new = []"
      by (simp add: debug_def emit_def)
    then show ?thesis by blast
  next
    case (Inr cmp)
    obtain r3 s3 where c: "conf_loop w comp_role cmp cf s2 [] = (r3, s3)"
      by (cases "conf_loop w comp_role cmp cf s2 []")
    from conf_loop_quiet[of w comp_role cmp cf s2 "[]"] c t2
    obtain n1 where n1: "trace s3 = trace s @ n1" "issued n1 = []" "awaited n1 = []" by auto
    show ?thesis
    proof (cases r3)
      case (Inl e)
      with Cons.prems a g \<open>r = Inr cmp\<close> c show ?thesis by simp
    next
      case (Inr m)
      let ?s4 = "emit (MoveAbs (name cmp) m) s3"
      from Cons.prems a g \<open>r = Inr cmp\<close> c Inr
      have "role_loop w mc ?s4 (fm @ [(name cmp, m)]) = (Inr fm1, s1)" by simp
      from Cons.IH[OF this] obtain n where
        n: "trace s1 = trace ?s4 @ n" "fm1 = (fm @ [(name cmp, m)]) @ issued n" "awaited n = []"
        by auto
      let ?new = "n1 @ MoveAbs (name cmp) m # n"
      from n n1 have "trace s1 = trace s @ ?new \<and> fm1 = fm @ issued ?new \<and> awaited ?new = []"
        by (simp add: emit_def issued_append awaited_append)
      then show ?thesis by blast
    qed
  qed
qed

lemma wait_all_new:
  "\<exists>new. trace (wait_all w fm s) = trace s @ new \<and> issued new = [] \<and> awaited new = fm \<and>
     (\<forall>n m e. (n, m) \<in> set fm \<and> move_result w n m = IOError e \<longrightarrow>
        Debug (Actuator_move_failed e) \<in> set new)"
proof (induction fm arbitrary: s)
  case Nil
  have "trace (wait_all w [] s) = trace s @ [] \<and> issued [] = [] \<and> awaited [] = [] \<and>
     (\<forall>n m e. (n, m) \<in> set [] \<and> move_result w n m = IOError e \<longrightarrow>
        Debug (Actuator_move_failed e) \<in> set [])" by simp
  then show ?case by blast
next
  case (Cons f fm)
  obtain n0 m0 where f: "f = (n0, m0)" by (cases f)
  show ?case
  proof (cases "move_result w n0 m0")
    case Done
    let ?s1 = "emit (Result n0 m0) s"
    from Cons.IH[of ?s1] obtain new where
      n: "trace (wait_all w fm ?s1) = trace ?s1 @ new" "issued new = []" "awaited new = fm"
      and l: "\<forall>n m e. (n, m) \<in> set fm \<and> move_result w n m = IOError e \<longrightarrow>
        Debug (Actuator_move_failed e) \<in> set new" by auto
    let ?new = "Result n0 m0 # new"
    from n l f Done
    have "trace (wait_all w (f # fm) s) = trace s @ ?new \<and> issued ?new = [] \<and>
      awaited ?new = f # fm \<and>
      (\<forall>n m e. (n, m) \<in> set (f # fm) \<and> move_result w n m = IOError e \<longrightarrow>
        Debug (Actuator_move_failed e) \<in> set ?new)"
      by (auto simp: emit_def)
    then show ?thesis by blast
  next
    case (IOError e0)
    let ?s1 = "debug (Actuator_move_failed e0) (emit (Result n0 m0) s)"
    from Cons.IH[of ?s1] obtain new where
      n: "trace (wait_all w fm ?s1) = trace ?s1 @ new" "issued new = []" "awaited new = fm"
      and l: "\<forall>n m e. (n, m) \<in> set fm \<and> move_result w n m = IOError e \<longrightarrow>
        Debug (Actuator_move_failed e) \<in> set new" by auto
    let ?new = "Result n0 m0 # Debug (Actuator_move_failed e0) # new"
    from n l f IOError
    have "trace (wait_all w (f # fm) s) = trace s @ ?new \<and> issued ?new = [] \<and>
      awaited ?new = f # fm \<and>
      (\<forall>n m e. (n, m) \<in> set (f # fm) \<and> move_result w n m = IOError e \<longrightarrow>
        Debug (Actuator_move_failed e) \<in> set ?new)"
      by (auto simp: emit_def debug_def)
    then show ?thesis by blast
  qed
qed

lemma wait_all_fields:
  "stored (wait_all w fm s) = stored s \<and> last_mode (wait_all w fm s) = last_mode s \<and>
   known_comps (wait_all w fm s) = known_comps s"
  by (induction fm arbitrary: s) (auto simp: emit_def debug_def split: fut_result.splits)

subsection \<open>The restoring moves and the wait\<close>

lemma cached_getComponent_evolved:
  assumes "evolves w s s1"
  shows "fst (cached_getComponent w r s1) = fst (cached_getComponent w r s)"
  using evolves_cache[OF assms, of r]
  by (cases "known_comps s r"; cases "known_comps s1 r"; cases "getComponent w r")
    (simp_all add: cached_getComponent_def)

lemma restoring_move_evolved:
  assumes "evolves w s s1" and "in_align (last_mode s)"
    and "axis = ''band'' \<or> axis = ''slit-in''"
  shows "restoring_move w s1 r axis = restoring_move w s r axis"
proof -
  from evolves_aligned[OF assms(1,2)] assms(3) have "stored s1 axis = stored s axis" by auto
  with cached_getComponent_evolved[OF assms(1), of r] show ?thesis
    by (cases "stored s axis") (simp_all add: restoring_move_def)
qed

lemma restore_axis_new:
  assumes "restore_axis w r axis msg s fm = (fm1, s1)"
  shows "\<exists>new. trace s1 = trace s @ new \<and> issued new = restoring_move w s r axis \<and>
           fm1 = fm @ restoring_move w s r axis \<and> awaited new = [] \<and>
           (stored s axis \<noteq> None \<and> fst (cached_getComponent w r s) = Inl (NotFound r)
              \<longrightarrow> new = [Debug msg])"
proof (cases "stored s axis")
  case None
  with assms have "trace s1 = trace s @ [] \<and> issued [] = restoring_move w s r axis \<and>
           fm1 = fm @ restoring_move w s r axis \<and> awaited [] = [] \<and>
           (stored s axis \<noteq> None \<and> fst (cached_getComponent w r s) = Inl (NotFound r)
              \<longrightarrow> [] = [Debug msg])"
    by (simp add: restore_axis_def restoring_move_def)
  then show ?thesis by blast
next
  case (Some v)
  obtain res s2 where g: "cached_getComponent w r s = (res, s2)"
    by (cases "cached_getComponent w r s")
  from cached_getComponent_trace[of w r s] g have t: "trace s2 = trace s" by simp
  show ?thesis
  proof (cases res)
    case (Inl e)
    with assms Some g t
    have "trace s1 = trace s @ [Debug msg] \<and> issued [Debug msg] = restoring_move w s r axis \<and>
           fm1 = fm @ restoring_move w s r axis \<and> awaited [Debug msg] = [] \<and>
           (stored s axis \<noteq> None \<and> fst (cached_getComponent w r s) = Inl (NotFound r)
              \<longrightarrow> [Debug msg] = [Debug msg])"
      by (auto simp: restore_axis_def restoring_move_def debug_def emit_def)
    then show ?thesis by blast
  next
    case (Inr cmp)
    let ?n = "[MoveAbs (name cmp) [(axis, Lit v)]]"
    from assms Some g t Inr
    have "trace s1 = trace s @ ?n \<and> issued ?n = restoring_move w s r axis \<and>
           fm1 = fm @ restoring_move w s r axis \<and> awaited ?n = [] \<and>
           (stored s axis \<noteq> None \<and> fst (cached_getComponent w r s) = Inl (NotFound r)
              \<longrightarrow> ?n = [Debug msg])"
      by (auto simp: restore_axis_def restoring_move_def emit_def)
    then show ?thesis by blast
  qed
qed

lemma restore_new:
  assumes "restore w mode s fm = (fm1, s1)"
  shows "\<exists>new. trace s1 = trace s @ new \<and> fm1 = fm @ issued new \<and> awaited new = []"
proof (cases "in_align (last_mode s) \<and> mode \<notin> set ALIGN_MODES")
  case False
  with assms have "trace s1 = trace s @ [] \<and> fm1 = fm @ issued [] \<and> awaited [] = []"
    by (auto simp: restore_def)
  then show ?thesis by blast
next
  case True
  obtain fa sa where r1: "restore_axis w ''filter'' ''band'' No_filter_component s fm = (fa, sa)"
    by (cases "restore_axis w ''filter'' ''band'' No_filter_component s fm")
  from True assms r1
  have r2: "restore_axis w ''spectrograph'' ''slit-in'' No_spectrograph_component sa fa = (fm1, s1)"
    by (simp add: restore_def)
  from restore_axis_new[OF r1] obtain n1 where
    n1: "trace sa = trace s @ n1" "fa = fm @ issued n1" "awaited n1 = []" by auto
  from restore_axis_new[OF r2] obtain n2 where
    n2: "trace s1 = trace sa @ n2" "fm1 = fa @ issued n2" "awaited n2 = []" by auto
  from n1 n2 have "trace s1 = trace s @ (n1 @ n2) \<and> fm1 = fm @ issued (n1 @ n2) \<and>
      awaited (n1 @ n2) = []"
    by (simp add: issued_append awaited_append)
  then show ?thesis by blast
qed

text \<open>What the futures give plays no part before the wait.\<close>

lemma set_band_move_result:
  "set_band (w\<lparr>move_result := f\<rparr>) cmp ax pos s m = set_band w cmp ax pos s m"
  by (simp add: set_band_def split: axis_def.splits option.splits)

lemma set_grating_move_result:
  "set_grating (w\<lparr>move_result := f\<rparr>) cmp ax pos s m = set_grating w cmp ax pos s m"
  by (simp add: set_grating_def split: axis_def.splits option.splits)

lemma set_slit_in_move_result:
  "set_slit_in (w\<lparr>move_result := f\<rparr>) cmp pos s m = set_slit_in w cmp pos s m"
  by (simp add: set_slit_in_def split: option.splits)

lemma set_axis_move_result:
  "set_axis (w\<lparr>move_result := f\<rparr>) comp_role cmp axis pos s m = set_axis w comp_role cmp axis pos s m"
  by (cases "map_of (axes cmp) axis")
    (simp_all add: set_axis_def set_band_move_result set_grating_move_result
      set_slit_in_move_result)

lemma conf_loop_move_result:
  "conf_loop (w\<lparr>move_result := f\<rparr>) comp_role cmp cf s m = conf_loop w comp_role cmp cf s m"
  by (induction cf arbitrary: s m)
    (auto simp: set_axis_move_result cong: prod.case_cong sum.case_cong)

lemma cached_getComponent_move_result:
  "cached_getComponent (w\<lparr>move_result := f\<rparr>) r s = cached_getComponent w r s"
  by (simp add: cached_getComponent_def getComponent_def cong: option.case_cong)

lemma role_loop_move_result:
  "role_loop (w\<lparr>move_result := f\<rparr>) mc s fm = role_loop w mc s fm"
  by (induction mc arbitrary: s fm)
    (auto simp: cached_getComponent_move_result conf_loop_move_result
      cong: prod.case_cong sum.case_cong)

lemma restore_move_result:
  "restore (w\<lparr>move_result := f\<rparr>) mode s fm = restore w mode s fm"
  by (simp add: restore_def restore_axis_def cached_getComponent_move_result
      cong: prod.case_cong sum.case_cong option.case_cong if_cong)

lemma wait_all_issued: "issued (trace (wait_all w fm s)) = issued (trace s)"
proof -
  from wait_all_new[of w fm s] obtain new where
    "trace (wait_all w fm s) = trace s @ new" "issued new = []" by blast
  then show ?thesis by (simp add: issued_append)
qed

subsection \<open>Components that are not found\<close>

lemma role_loop_unresolved:
  assumes "\<forall>(r, cf) \<in> set mc. known_comps s r = None \<and> getComponent w r = None"
  shows "role_loop w mc s fm =
    (Inr fm, s\<lparr>trace := trace s @ map (\<lambda>(r, cf). Debug (Failed_to_find_component r)) mc\<rparr>)"
  using assms
proof (induction mc arbitrary: s)
  case Nil
  show ?case by simp
next
  case (Cons a mc)
  obtain r cf where a: "a = (r, cf)" by (cases a)
  from Cons.prems a have u: "known_comps s r = None" "getComponent w r = None" by simp_all
  then have g: "cached_getComponent w r s = (Inl (NotFound r), s)"
    by (simp add: cached_getComponent_def)
  let ?s1 = "debug (Failed_to_find_component r) s"
  from Cons.prems
  have "\<forall>(r, cf) \<in> set mc. known_comps ?s1 r = None \<and> getComponent w r = None"
    by (simp add: debug_def emit_def)
  from Cons.IH[OF this] a g show ?case by (simp add: debug_def emit_def)
qed

lemma restore_axis_fields:
  "stored (snd (restore_axis w r axis msg s fm)) = stored s \<and>
   last_mode (snd (restore_axis w r axis msg s fm)) = last_mode s"
  by (simp add: restore_axis_def cached_getComponent_def debug_def emit_def
      split: option.splits)

lemma restore_leaving:
  assumes e1: "evolves w s s1" and al: "in_align (last_mode s)"
    and na: "mode \<notin> set ALIGN_MODES"
    and rs: "restore w mode s1 fm = (fm2, s2)"
  shows "\<exists>pre. trace s2 = trace s1 @ pre \<and> fm2 = fm @ issued pre \<and> awaited pre = [] \<and>
           issued pre = restoring_move w s ''filter'' ''band'' @
                        restoring_move w s ''spectrograph'' ''slit-in'' \<and>
           stored s2 = stored s1 \<and> last_mode s2 = last_mode s1"
proof -
  from evolves_tables[OF e1] al have al1: "in_align (last_mode s1)" by simp
  obtain fa sa where r1: "restore_axis w ''filter'' ''band'' No_filter_component s1 fm = (fa, sa)"
    by (cases "restore_axis w ''filter'' ''band'' No_filter_component s1 fm")
  from al1 na rs r1
  have r2: "restore_axis w ''spectrograph'' ''slit-in'' No_spectrograph_component sa fa = (fm2, s2)"
    by (simp add: restore_def)
  from evolves_restore_axis[of w s1 "''filter''" "''band''" No_filter_component fm] r1
  have "evolves w s1 sa" by simp
  with e1 have ea: "evolves w s sa" by (rule evolves_trans)
  have b1: "restoring_move w s1 ''filter'' ''band'' = restoring_move w s ''filter'' ''band''"
    using e1 al by (rule restoring_move_evolved) simp
  have b2: "restoring_move w sa ''spectrograph'' ''slit-in'' =
            restoring_move w s ''spectrograph'' ''slit-in''"
    using ea al by (rule restoring_move_evolved) simp
  from restore_axis_new[OF r1, unfolded b1] obtain n1 where
    n1: "trace sa = trace s1 @ n1" "issued n1 = restoring_move w s ''filter'' ''band''"
        "fa = fm @ restoring_move w s ''filter'' ''band''" "awaited n1 = []"
    by (elim exE conjE)
  from restore_axis_new[OF r2, unfolded b2] obtain n2 where
    n2: "trace s2 = trace sa @ n2" "issued n2 = restoring_move w s ''spectrograph'' ''slit-in''"
        "fm2 = fa @ restoring_move w s ''spectrograph'' ''slit-in''" "awaited n2 = []"
    by (elim exE conjE)
  from restore_axis_fields[of w "''filter''" "''band''" No_filter_component s1 fm] r1
  have f1: "stored sa = stored s1" "last_mode sa = last_mode s1" by simp_all
  from restore_axis_fields[of w "''spectrograph''" "''slit-in''" No_spectrograph_component sa fa] r2
  have f2: "stored s2 = stored sa" "last_mode s2 = last_mode sa" by simp_all
  have c1: "trace s2 = trace s1 @ (n1 @ n2)"
    by (simp only: n2(1) n1(1) append_assoc)
  have c4: "issued (n1 @ n2) = restoring_move w s ''filter'' ''band'' @
                        restoring_move w s ''spectrograph'' ''slit-in''"
    by (simp only: issued_append n1(2) n2(2))
  have c2: "fm2 = fm @ issued (n1 @ n2)"
    by (simp only: c4 n2(3) n1(3) append_assoc)
  have c3: "awaited (n1 @ n2) = []"
    by (simp only: awaited_append n1(4) n2(4) append_Nil)
  have c5: "stored s2 = stored s1" by (simp only: f2(1) f1(1))
  have c6: "last_mode s2 = last_mode s1" by (simp only: f2(2) f1(2))
  show ?thesis
    apply (rule exI[of _ "n1 @ n2"])
    apply (intro conjI)
         apply (rule c1)
        apply (rule c2)
       apply (rule c3)
      apply (rule c4)
     apply (rule c5)
    apply (rule c6)
    done
qed

subsection \<open>What the band and the slit of the restore-store do not influence\<close>

lemma sim_refl: "same_but_band_slit s s"
  by (simp add: same_but_band_slit_def)

lemma sim_fields:
  "same_but_band_slit s t \<Longrightarrow> guessed t = guessed s \<and> modes t = modes s \<and>
     known_comps t = known_comps s \<and> last_mode t = last_mode s \<and> trace t = trace s"
  by (simp add: same_but_band_slit_def)

lemma sim_grating: "same_but_band_slit s t \<Longrightarrow> stored t ''grating'' = stored s ''grating''"
  by (simp add: same_but_band_slit_def)

lemma sim_emit: "same_but_band_slit s t \<Longrightarrow> same_but_band_slit (emit e s) (emit e t)"
  by (simp add: same_but_band_slit_def emit_def)

lemma sim_debug: "same_but_band_slit s t \<Longrightarrow> same_but_band_slit (debug l s) (debug l t)"
  by (simp add: debug_def sim_emit)

lemma sim_last_mode:
  "same_but_band_slit s t \<Longrightarrow> same_but_band_slit (s\<lparr>last_mode := x\<rparr>) (t\<lparr>last_mode := x\<rparr>)"
  by (simp add: same_but_band_slit_def)

lemma sim_store:
  "same_but_band_slit s t \<Longrightarrow>
     same_but_band_slit (s\<lparr>stored := (stored s)(k \<mapsto> v)\<rparr>) (t\<lparr>stored := (stored t)(k \<mapsto> v)\<rparr>)"
  by (simp add: same_but_band_slit_def)

lemma sim_cached_getComponent:
  assumes "same_but_band_slit s t"
  shows "fst (cached_getComponent w r t) = fst (cached_getComponent w r s) \<and>
         same_but_band_slit (snd (cached_getComponent w r s)) (snd (cached_getComponent w r t))"
  using assms sim_fields[OF assms]
  by (cases "known_comps s r"; cases "getComponent w r")
    (simp_all add: cached_getComponent_def same_but_band_slit_def)

lemma sim_set_band:
  assumes "same_but_band_slit s t"
  shows "fst (set_band w cmp ax pos t m) = fst (set_band w cmp ax pos s m) \<and>
         same_but_band_slit (snd (set_band w cmp ax pos s m)) (snd (set_band w cmp ax pos t m))"
  using sim_fields[OF assms] sim_store[OF assms] sim_debug[OF assms] assms
  by (simp add: set_band_def split: axis_def.splits option.splits)

lemma sim_set_slit_in:
  assumes "same_but_band_slit s t"
  shows "fst (set_slit_in w cmp pos t m) = fst (set_slit_in w cmp pos s m) \<and>
         same_but_band_slit (snd (set_slit_in w cmp pos s m)) (snd (set_slit_in w cmp pos t m))"
  using sim_fields[OF assms] sim_store[OF assms] assms
  by (simp add: set_slit_in_def split: option.splits)

lemma sim_set_grating:
  assumes "same_but_band_slit s t"
  shows "fst (set_grating w cmp ax pos t m) = fst (set_grating w cmp ax pos s m) \<and>
         same_but_band_slit (snd (set_grating w cmp ax pos s m)) (snd (set_grating w cmp ax pos t m))"
  using sim_grating[OF assms] sim_store[OF assms] assms
  by (simp add: set_grating_def split: axis_def.splits option.splits sum.splits)

lemma sim_set_axis:
  assumes "same_but_band_slit s t"
  shows "fst (set_axis w cr cmp axis pos t m) = fst (set_axis w cr cmp axis pos s m) \<and>
         same_but_band_slit (snd (set_axis w cr cmp axis pos s m))
           (snd (set_axis w cr cmp axis pos t m))"
  using sim_set_band[OF assms] sim_set_grating[OF assms] sim_set_slit_in[OF assms]
    sim_debug[OF assms] assms
  by (simp add: set_axis_def split: option.splits axis_def.splits)

lemma sim_conf_loop:
  "same_but_band_slit s t \<Longrightarrow>
     fst (conf_loop w cr cmp cf t m) = fst (conf_loop w cr cmp cf s m) \<and>
     same_but_band_slit (snd (conf_loop w cr cmp cf s m)) (snd (conf_loop w cr cmp cf t m))"
proof (induction cf arbitrary: s t m)
  case Nil
  then show ?case by simp
next
  case (Cons a cf)
  obtain axis pos where a: "a = (axis, pos)" by (cases a)
  obtain r s1 where ss: "set_axis w cr cmp axis pos s m = (r, s1)"
    by (cases "set_axis w cr cmp axis pos s m")
  obtain r' t1 where st: "set_axis w cr cmp axis pos t m = (r', t1)"
    by (cases "set_axis w cr cmp axis pos t m")
  from sim_set_axis[OF Cons.prems, of w cr cmp axis pos m] ss st
  have rr: "r' = r" and s1: "same_but_band_slit s1 t1" by simp_all
  show ?case
  proof (cases r)
    case (Inl e)
    with a ss st rr s1 show ?thesis by simp
  next
    case (Inr m1)
    with a ss st rr Cons.IH[OF s1, of m1] show ?thesis by simp
  qed
qed

lemma sim_role_loop:
  "same_but_band_slit s t \<Longrightarrow>
     fst (role_loop w mc t fm) = fst (role_loop w mc s fm) \<and>
     same_but_band_slit (snd (role_loop w mc s fm)) (snd (role_loop w mc t fm))"
proof (induction mc arbitrary: s t fm)
  case Nil
  then show ?case by simp
next
  case (Cons a mc)
  obtain cr cf where a: "a = (cr, cf)" by (cases a)
  obtain r s1 where gs: "cached_getComponent w cr s = (r, s1)"
    by (cases "cached_getComponent w cr s")
  obtain r' t1 where gt: "cached_getComponent w cr t = (r', t1)"
    by (cases "cached_getComponent w cr t")
  from sim_cached_getComponent[OF Cons.prems, of w cr] gs gt
  have rr: "r' = r" and s1: "same_but_band_slit s1 t1" by simp_all
  show ?case
  proof (cases r)
    case (Inl e)
    from Cons.IH[OF sim_debug[OF s1, of "Failed_to_find_component cr"], of fm]
      a gs gt rr Inl show ?thesis by simp
  next
    case (Inr cmp)
    obtain r2 s2 where cs: "conf_loop w cr cmp cf s1 [] = (r2, s2)"
      by (cases "conf_loop w cr cmp cf s1 []")
    obtain r2' t2 where ct: "conf_loop w cr cmp cf t1 [] = (r2', t2)"
      by (cases "conf_loop w cr cmp cf t1 []")
    from sim_conf_loop[OF s1, of w cr cmp cf "[]"] cs ct
    have rr2: "r2' = r2" and s2: "same_but_band_slit s2 t2" by simp_all
    show ?thesis
    proof (cases r2)
      case (Inl e)
      with a gs gt rr \<open>r = Inr cmp\<close> cs ct rr2 s2 show ?thesis by simp
    next
      case (Inr m)
      from Cons.IH[OF sim_emit[OF s2, of "MoveAbs (name cmp) m"], of "fm @ [(name cmp, m)]"]
        a gs gt rr \<open>r = Inr cmp\<close> cs ct rr2 Inr show ?thesis by simp
    qed
  qed
qed

lemma sim_wait_all:
  "same_but_band_slit s t \<Longrightarrow> same_but_band_slit (wait_all w fm s) (wait_all w fm t)"
proof (induction fm arbitrary: s t)
  case Nil
  then show ?case by simp
next
  case (Cons f fm)
  obtain n m where f: "f = (n, m)" by (cases f)
  show ?case
  proof (cases "move_result w n m")
    case Done
    from Cons.IH[OF sim_emit[OF Cons.prems, of "Result n m"]] f Done show ?thesis by simp
  next
    case (IOError e)
    from Cons.IH[OF sim_debug[OF sim_emit[OF Cons.prems, of "Result n m"],
        of "Actuator_move_failed e"]] f IOError
    show ?thesis by simp
  qed
qed

lemma sim_setPath:
  assumes sim: "same_but_band_slit s t"
    and nl: "\<not> (in_align (last_mode s) \<and> mode \<notin> set ALIGN_MODES)"
  shows "fst (setPath w t mode) = fst (setPath w s mode) \<and>
         same_but_band_slit (snd (setPath w s mode)) (snd (setPath w t mode))"
proof (cases "map_of (modes s) mode")
  case None
  with sim sim_fields[OF sim] show ?thesis by (simp add: setPath_def)
next
  case (Some a)
  obtain det mc where a: "a = (det, mc)" by (cases a)
  from Some a sim_fields[OF sim] have lt: "map_of (modes t) mode = Some (det, mc)" by simp
  obtain r s1 where rs: "role_loop w mc s [] = (r, s1)" by (cases "role_loop w mc s []")
  obtain r' t1 where rt: "role_loop w mc t [] = (r', t1)" by (cases "role_loop w mc t []")
  from sim_role_loop[OF sim, of w mc "[]"] rs rt
  have rr: "r' = r" and s1: "same_but_band_slit s1 t1" by simp_all
  show ?thesis
  proof (cases r)
    case (Inl e)
    with Some a lt rs rt rr s1 show ?thesis by (simp add: setPath_def)
  next
    case (Inr fm)
    from evolves_tables[OF evolves_role_loop[of w s mc "[]"]] rs
    have "last_mode s1 = last_mode s" by simp
    with nl sim_fields[OF s1]
    have n1: "\<not> (in_align (last_mode s1) \<and> mode \<notin> set ALIGN_MODES)"
      and n2: "\<not> (in_align (last_mode t1) \<and> mode \<notin> set ALIGN_MODES)" by simp_all
    have q1: "restore w mode s1 fm = (fm, s1)" unfolding restore_def by (rule if_not_P[OF n1])
    have q2: "restore w mode t1 fm = (fm, t1)" unfolding restore_def by (rule if_not_P[OF n2])
    from sim_wait_all[OF sim_last_mode[OF s1, of "Some mode"], of w fm]
      Some a lt rs rt rr Inr q1 q2
    show ?thesis by (simp add: setPath_def)
  qed
qed

lemma setPath_stored:
  "dom (stored s) \<subseteq> dom (stored (snd (setPath w s mode))) \<and>
   (\<forall>k. k \<noteq> ''band'' \<and> k \<noteq> ''grating'' \<and> k \<noteq> ''slit-in'' \<longrightarrow>
      stored (snd (setPath w s mode)) k = stored s k) \<and>
   (in_align (last_mode s) \<longrightarrow>
      stored (snd (setPath w s mode)) ''band'' = stored s ''band'' \<and>
      stored (snd (setPath w s mode)) ''slit-in'' = stored s ''slit-in'')"
proof -
  have "\<exists>s2. evolves w s s2 \<and> stored (snd (setPath w s mode)) = stored s2"
  proof (cases "map_of (modes s) mode")
    case None
    then have "evolves w s s \<and> stored (snd (setPath w s mode)) = stored s"
      by (simp add: setPath_def evolves_refl)
    then show ?thesis by (rule exI)
  next
    case (Some a)
    obtain det mc where a: "a = (det, mc)" by (cases a)
    obtain r s1 where rl: "role_loop w mc s [] = (r, s1)" by (cases "role_loop w mc s []")
    from evolves_role_loop[of w s mc "[]"] rl have e1: "evolves w s s1" by simp
    show ?thesis
    proof (cases r)
      case (Inl e)
      with Some a rl e1 have "evolves w s s1 \<and> stored (snd (setPath w s mode)) = stored s1"
        by (simp add: setPath_def)
      then show ?thesis by (rule exI)
    next
      case (Inr fm)
      obtain fm2 s2 where rs: "restore w mode s1 fm = (fm2, s2)"
        by (cases "restore w mode s1 fm")
      from evolves_restore[of w s1 mode fm] rs have "evolves w s1 s2" by simp
      with e1 have e2: "evolves w s s2" by (rule evolves_trans)
      from Some a rl Inr rs
      have "stored (snd (setPath w s mode)) = stored s2"
        by (simp add: setPath_def wait_all_fields)
      with e2 have "evolves w s s2 \<and> stored (snd (setPath w s mode)) = stored s2" by simp
      then show ?thesis by (rule exI)
    qed
  qed
  then obtain s2 where e: "evolves w s s2" and st: "stored (snd (setPath w s mode)) = stored s2"
    by (elim exE conjE)
  have 1: "dom (stored s) \<subseteq> dom (stored (snd (setPath w s mode)))"
    using evolves_dom[OF e] by (simp only: st)
  have 2: "\<forall>k. k \<noteq> ''band'' \<and> k \<noteq> ''grating'' \<and> k \<noteq> ''slit-in'' \<longrightarrow>
      stored (snd (setPath w s mode)) k = stored s k"
    using evolves_other[OF e] by (simp add: st)
  have 3: "in_align (last_mode s) \<longrightarrow>
      stored (snd (setPath w s mode)) ''band'' = stored s ''band'' \<and>
      stored (snd (setPath w s mode)) ''slit-in'' = stored s ''slit-in''"
    using evolves_aligned[OF e] by (simp add: st)
  show ?thesis
    apply (intro conjI)
      apply (rule 1)
     apply (rule 2)
    apply (rule 3)
    done
qed

subsection \<open>Concrete runs\<close>

lemma modes_init_sparc_ccd_filter:
  "modes (init sparc_ccd_filter) = [SPARC_MODES ! 0, SPARC_MODES ! 4, SPARC_MODES ! 5]"
  by (simp add: init_def sparc_ccd_filter_def SPARC_MODES_def ALIGN_MODES_def
      cached_getComponent_def getComponent_def camera_def filter_wheel_def debug_def emit_def
      AList.delete_eq)

lemma guessed_init_sparc_ccd_filter:
  "guessed (init sparc_ccd_filter) =
     [SPARC_MODES ! 0, SPARC_MODES ! 1, SPARC_MODES ! 2, SPARC_MODES ! 3]"
  by (simp add: init_def sparc_ccd_filter_def SPARC_MODES_def ALIGN_MODES_def
      cached_getComponent_def getComponent_def camera_def filter_wheel_def debug_def emit_def
      AList.delete_eq)

lemmas eval_defs = init_def setPath_def sparc2_sim_def SPARC2_MODES_def ALIGN_MODES_def
  cached_getComponent_def getComponent_def camera_def spectrometer_def spectrograph_def
  debug_def emit_def AList.delete_eq set_axis_def set_grating_def set_band_def set_slit_in_def
  restore_def restore_axis_def x_axis_def rx_def gratings_with_mirror_def
  gratings_without_mirror_def

lemmas eval_sparc = init_def setPath_def sparc_sim_def sparc_ccd_filter_def SPARC_MODES_def
  ALIGN_MODES_def cached_getComponent_def getComponent_def camera_def spectrometer_def
  spectrograph_def lens_switch_def filter_wheel_def debug_def emit_def AList.delete_eq
  set_axis_def set_grating_def set_band_def set_slit_in_def restore_def restore_axis_def
  rx_def gratings_with_mirror_def

lemmas eval_mirror = init_def setPath_def sparc2_only_mirror_def SPARC2_MODES_def
  ALIGN_MODES_def cached_getComponent_def getComponent_def camera_def spectrometer_def
  spectrograph_def lens_switch2_def debug_def emit_def AList.delete_eq
  set_axis_def set_grating_def set_band_def set_slit_in_def restore_def restore_axis_def
  x_axis_def rx_def gratings_only_mirror_def

text \<open>The two names that the last step of the constructor deletes on a sparc2 are keys of
  its guess table, so that neither \<^verbatim>\<open>del\<close> can raise.\<close>

lemma sparc2_guessed_keys:
  "map_of (fold AList.delete ALIGN_MODES SPARC2_MODES) ''spectral-integrated'' \<noteq> None \<and>
   map_of (fold AList.delete ALIGN_MODES SPARC2_MODES) ''spectral-dedicated'' \<noteq> None"
  by (simp add: ALIGN_MODES_def SPARC2_MODES_def AList.delete_eq)

section \<open>The claims\<close>

subsection \<open>C1: guessing never gives an alignment mode\<close>

text \<open>
  C1. After the constructor and any calls of \<^verbatim>\<open>setPath\<close>, whatever the object given to
  \<^verbatim>\<open>guessMode\<close> (a single-detector stream, a multiple-detector stream, no stream), a
  mode that \<^verbatim>\<open>guessMode\<close> returns is not in \<^verbatim>\<open>ALIGN_MODES\<close>: the constructor has
  deleted these names from \<^verbatim>\<open>guessed\<close>, and nothing adds a name to it.
\<close>

theorem guessMode_never_alignment:
  "guessMode (run_calls cs (init w)) x = Inr m \<Longrightarrow> m \<notin> set ALIGN_MODES"
proof -
  assume "guessMode (run_calls cs (init w)) x = Inr m"
  then have "m \<in> fst ` set (guessed (run_calls cs (init w)))" by (rule guessMode_key)
  then have "m \<in> fst ` set (guessed (init w))" by (simp add: run_calls_tables)
  with guessed_init_keys[of w] show ?thesis by blast
qed

theorem guessMode_never_alignment_witness:
  "guessMode (run_calls [] (init sparc_ccd_filter)) (Stream ''ccd'') = Inr ''ar'' \<and>
   ''ar'' \<notin> set ALIGN_MODES"
proof -
  have g: "guessMode (run_calls [] (init sparc_ccd_filter)) (Stream ''ccd'') = Inr ''ar''"
    by (simp add: guessMode_def guessed_init_sparc_ccd_filter SPARC_MODES_def)
  from guessMode_never_alignment[OF g] g show ?thesis by simp
qed

subsection \<open>C2: a mode that is not in the working table\<close>

text \<open>
  C2. For a mode name that is not a key of \<^verbatim>\<open>_modes\<close>, \<^verbatim>\<open>setPath\<close> raises the
  ValueError of an invalid mode and leaves the whole manager as it was: tables, cache,
  \<^verbatim>\<open>_stored\<close>, \<^verbatim>\<open>_last_mode\<close> and trace (no move, no log line). For a mode name that is
  a key of \<^verbatim>\<open>_modes\<close>, whatever \<^verbatim>\<open>setPath\<close> does, it does not raise that error.
\<close>

theorem setPath_invalid_mode:
  "(map_of (modes s) mode = None \<longrightarrow> setPath w s mode = (Inl (InvalidMode mode), s)) \<and>
   (map_of (modes s) mode \<noteq> None \<longrightarrow> (\<forall>m. fst (setPath w s mode) \<noteq> Inl (InvalidMode m)))"
proof (intro conjI impI allI)
  assume "map_of (modes s) mode = None"
  then show "setPath w s mode = (Inl (InvalidMode mode), s)"
    by (simp add: setPath_def)
next
  fix m
  assume "map_of (modes s) mode \<noteq> None"
  then obtain det mc where look: "map_of (modes s) mode = Some (det, mc)" by auto
  obtain r s1 where rl: "role_loop w mc s [] = (r, s1)" by (cases "role_loop w mc s []")
  show "fst (setPath w s mode) \<noteq> Inl (InvalidMode m)"
  proof (cases r)
    case (Inl e)
    with rl role_loop_error have "e = KeyError \<or> e = AttributeError \<or> e = NoNonMirrorGrating"
      by blast
    with look rl Inl show ?thesis by (auto simp: setPath_def)
  next
    case (Inr fm)
    with look rl show ?thesis by (simp add: setPath_def split: prod.splits)
  qed
qed

theorem setPath_invalid_mode_witness:
  "setPath sparc_ccd_filter (init sparc_ccd_filter) ''ErrorMode'' =
     (Inl (InvalidMode ''ErrorMode''), init sparc_ccd_filter) \<and>
   fst (setPath sparc_ccd_filter (init sparc_ccd_filter) ''ar'') \<noteq> Inl (InvalidMode ''ar'')"
proof -
  have 1: "map_of (modes (init sparc_ccd_filter)) ''ErrorMode'' = None"
    by (simp add: modes_init_sparc_ccd_filter SPARC_MODES_def)
  have 2: "map_of (modes (init sparc_ccd_filter)) ''ar'' \<noteq> None"
    by (simp add: modes_init_sparc_ccd_filter SPARC_MODES_def)
  from setPath_invalid_mode[of "init sparc_ccd_filter" "''ErrorMode''" sparc_ccd_filter] 1
  have a: "setPath sparc_ccd_filter (init sparc_ccd_filter) ''ErrorMode'' =
     (Inl (InvalidMode ''ErrorMode''), init sparc_ccd_filter)" by blast
  from setPath_invalid_mode[of "init sparc_ccd_filter" "''ar''" sparc_ccd_filter] 2
  have b: "fst (setPath sparc_ccd_filter (init sparc_ccd_filter) ''ar'') \<noteq> Inl (InvalidMode ''ar'')"
    by blast
  from a b show ?thesis by (rule conjI)
qed

subsection \<open>C7: guessing the mode of a single-detector stream\<close>

text \<open>
  C7. For a single-detector stream whose detector has role \<open>r\<close>, \<^verbatim>\<open>guessMode\<close> returns
  \<open>m\<close> exactly when \<open>m\<close> is the first mode of \<^verbatim>\<open>guessed\<close>, in the order of the table,
  whose detector role is \<open>r\<close> (no entry before it has that role); it raises the LookupError
  of no mode inferred exactly when no entry has that role, and raises nothing else. An
  object that is no stream gives the IOError of not a stream. With the table of \<open>ar\<close>
  on \<open>ccd\<close> and \<open>spectral\<close> on \<open>spectrometer\<close>, a stream of the spectrometer gives
  \<open>spectral\<close>.
\<close>

theorem guessMode_single_detector:
  "(guessMode s (Stream r) = Inr m \<longleftrightarrow>
      (\<exists>pre cf post. guessed s = pre @ (m, r, cf) # post \<and>
         r \<notin> (\<lambda>e. fst (snd e)) ` set pre)) \<and>
   (guessMode s (Stream r) = Inl NoModeInferred \<longleftrightarrow>
      r \<notin> (\<lambda>e. fst (snd e)) ` set (guessed s)) \<and>
   (\<forall>e. guessMode s (Stream r) = Inl e \<longrightarrow> e = NoModeInferred) \<and>
   guessMode s Not_a_stream = Inl NotAStream \<and>
   (guessed s = [(''ar'', ''ccd'', c1), (''spectral'', ''spectrometer'', c2)] \<longrightarrow>
      guessMode s (Stream ''spectrometer'') = Inr ''spectral'')"
proof (intro conjI)
  show "guessMode s (Stream r) = Inr m \<longleftrightarrow>
      (\<exists>pre cf post. guessed s = pre @ (m, r, cf) # post \<and>
         r \<notin> (\<lambda>e. fst (snd e)) ` set pre)"
  proof
    assume "guessMode s (Stream r) = Inr m"
    then have "scan_guessed (guessed s) r = Some m"
      by (simp add: guessMode_def split: option.splits)
    then show "\<exists>pre cf post. guessed s = pre @ (m, r, cf) # post \<and>
         r \<notin> (\<lambda>e. fst (snd e)) ` set pre"
      by (rule scan_guessed_Some)
  next
    assume "\<exists>pre cf post. guessed s = pre @ (m, r, cf) # post \<and>
         r \<notin> (\<lambda>e. fst (snd e)) ` set pre"
    then obtain pre cf post where g: "guessed s = pre @ (m, r, cf) # post"
      and n: "r \<notin> (\<lambda>e. fst (snd e)) ` set pre" by blast
    from scan_guessed_first[OF n, of m cf post] g
    show "guessMode s (Stream r) = Inr m" by (simp add: guessMode_def)
  qed
  show "guessMode s (Stream r) = Inl NoModeInferred \<longleftrightarrow>
      r \<notin> (\<lambda>e. fst (snd e)) ` set (guessed s)"
    using scan_guessed_None[of "guessed s" r]
    by (cases "scan_guessed (guessed s) r") (simp_all add: guessMode_def)
  show "\<forall>e. guessMode s (Stream r) = Inl e \<longrightarrow> e = NoModeInferred"
    by (auto simp: guessMode_def split: option.splits)
  show "guessMode s Not_a_stream = Inl NotAStream"
    by (simp add: guessMode_def)
  show "guessed s = [(''ar'', ''ccd'', c1), (''spectral'', ''spectrometer'', c2)] \<longrightarrow>
      guessMode s (Stream ''spectrometer'') = Inr ''spectral''"
    by (simp add: guessMode_def)
qed

theorem guessMode_single_detector_witness:
  "guessMode (init sparc_ccd_filter\<lparr>guessed := [(''ar'', ''ccd'', []), (''spectral'', ''spectrometer'', [])]\<rparr>)
     (Stream ''spectrometer'') = Inr ''spectral'' \<and>
   guessMode (init sparc_ccd_filter) (Stream ''se-detector'') = Inl NoModeInferred \<and>
   guessMode (init sparc_ccd_filter) Not_a_stream = Inl NotAStream"
proof -
  let ?s = "init sparc_ccd_filter\<lparr>guessed := [(''ar'', ''ccd'', []), (''spectral'', ''spectrometer'', [])]\<rparr>"
  have 1: "guessed ?s = [(''ar'', ''ccd'', []), (''spectral'', ''spectrometer'', [])]" by simp
  have 2: "''se-detector'' \<notin> (\<lambda>e. fst (snd e)) ` set (guessed (init sparc_ccd_filter))"
    by (simp add: guessed_init_sparc_ccd_filter SPARC_MODES_def)
  from guessMode_single_detector[of ?s "''spectrometer''" "''spectral''" "[]" "[]"] 1
  have a: "guessMode ?s (Stream ''spectrometer'') = Inr ''spectral''" by blast
  from guessMode_single_detector[of "init sparc_ccd_filter" "''se-detector''" "''ar''" "[]" "[]"] 2
  have b: "guessMode (init sparc_ccd_filter) (Stream ''se-detector'') = Inl NoModeInferred"
    and c: "guessMode (init sparc_ccd_filter) Not_a_stream = Inl NotAStream" by blast+
  from a b c show ?thesis by blast
qed

subsection \<open>C8: the modes of the running microscope\<close>

text \<open>
  C8, as the code has it. After the constructor and any calls of \<^verbatim>\<open>setPath\<close>, a mode
  is in the working table \<^verbatim>\<open>_modes\<close> only if the registry of the microscope the manager
  was built on has a component whose role is the mode's detector role.
\<close>

theorem modes_only_supported:
  "(m, det, cf) \<in> set (modes (run_calls cs (init w))) \<Longrightarrow>
     \<exists>c. c \<in> set (components w) \<and> role c = det \<and> getComponent w det = Some c"
proof -
  assume "(m, det, cf) \<in> set (modes (run_calls cs (init w)))"
  then have "(m, det, cf) \<in> set (modes (init w))" by (simp add: run_calls_tables)
  then have "getComponent w det \<noteq> None" by (rule modes_init_supported)
  then obtain c where c: "getComponent w det = Some c" by blast
  with getComponent_Some[OF c] show ?thesis by blast
qed

theorem modes_only_supported_witness:
  "SPARC_MODES ! 0 \<in> set (modes (run_calls [] (init sparc_ccd_filter))) \<and>
   SPARC_MODES ! 0 = (''ar'', ''ccd'', snd (snd (SPARC_MODES ! 0))) \<and>
   (\<exists>c. c \<in> set (components sparc_ccd_filter) \<and> role c = ''ccd'' \<and>
        getComponent sparc_ccd_filter ''ccd'' = Some c)"
proof -
  have e: "SPARC_MODES ! 0 = (''ar'', ''ccd'', snd (snd (SPARC_MODES ! 0)))"
    by (simp add: SPARC_MODES_def)
  have i: "SPARC_MODES ! 0 \<in> set (modes (run_calls [] (init sparc_ccd_filter)))"
    by (simp add: modes_init_sparc_ccd_filter)
  then have "(''ar'', ''ccd'', snd (snd (SPARC_MODES ! 0)))
      \<in> set (modes (run_calls [] (init sparc_ccd_filter)))" using e by simp
  from modes_only_supported[OF this] e i show ?thesis by blast
qed

text \<open>
  C8 as stated fails for the guess table: on a SPARC with a camera and a filter wheel
  only, \<^verbatim>\<open>guessed\<close> still holds the mode \<open>cli\<close>, whose detector role \<open>cl-detector\<close> no
  component has, and \<^verbatim>\<open>guessMode\<close> returns it for a stream of such a detector.
\<close>

theorem guessed_not_filtered:
  "map_of (guessed (init sparc_ccd_filter)) ''cli'' = Some (snd (SPARC_MODES ! 1)) \<and>
   fst (snd (SPARC_MODES ! 1)) = ''cl-detector'' \<and>
   getComponent sparc_ccd_filter ''cl-detector'' = None \<and>
   guessMode (init sparc_ccd_filter) (Stream ''cl-detector'') = Inr ''cli''"
proof -
  have 1: "map_of (guessed (init sparc_ccd_filter)) ''cli'' = Some (snd (SPARC_MODES ! 1))"
    by (simp add: guessed_init_sparc_ccd_filter SPARC_MODES_def)
  have 2: "fst (snd (SPARC_MODES ! 1)) = ''cl-detector''"
    by (simp add: SPARC_MODES_def)
  have 3: "getComponent sparc_ccd_filter ''cl-detector'' = None"
    by (simp add: getComponent_def sparc_ccd_filter_def camera_def filter_wheel_def)
  have 4: "guessMode (init sparc_ccd_filter) (Stream ''cl-detector'') = Inr ''cli''"
    by (simp add: guessMode_def guessed_init_sparc_ccd_filter SPARC_MODES_def)
  from 1 2 3 4 show ?thesis by simp
qed

subsection \<open>C3: a grating that is not the mirror\<close>

text \<open>
  C3. On an actuator whose grating axis has a dict of choices, the target
  \<^verbatim>\<open>GRATING_NOT_MIRROR\<close> of the grating axis becomes the value of \<^verbatim>\<open>_stored\<close> for the
  grating when there is one, and otherwise the key that \<^verbatim>\<open>findNonMirror\<close> gives, with
  the manager unchanged; \<^verbatim>\<open>findNonMirror\<close> gives the first key of the choices, in their
  order, whose value is not \<open>mirror\<close>, and raises the ValueError of no grating exactly when
  every value is \<open>mirror\<close> (the empty table included). With the choices \<open>g1\<close> for
  \<open>600gmm\<close> and \<open>g2\<close> for \<open>mirror\<close> and nothing stored, the result is \<open>g1\<close>.
\<close>

theorem grating_not_mirror:
  assumes ax: "map_of (axes cmp) ''grating'' = Some (Choices_dict choices)"
  shows "set_axis w comp_role cmp ''grating'' GRATING_NOT_MIRROR s m =
      (case stored s ''grating'' of
         Some g \<Rightarrow> (Inr (AList.update ''grating'' (Lit g) m), s)
       | None \<Rightarrow>
          (case findNonMirror choices of
             Inr key \<Rightarrow> (Inr (AList.update ''grating'' (Lit key) m), s)
           | Inl e \<Rightarrow> (Inl NoNonMirrorGrating, s))) \<and>
    (findNonMirror choices = Inr key \<longleftrightarrow>
       (\<exists>pre v post. choices = pre @ (key, v) # post \<and> v \<noteq> Str ''mirror'' \<and>
          snd ` set pre \<subseteq> {Str ''mirror''})) \<and>
    (findNonMirror choices = Inl NoNonMirrorGrating \<longleftrightarrow>
       snd ` set choices \<subseteq> {Str ''mirror''}) \<and>
    findNonMirror [(Str ''g1'', Str ''600gmm''), (Str ''g2'', Str ''mirror'')] = Inr (Str ''g1'')"
proof (intro conjI)
  have "set_axis w comp_role cmp ''grating'' GRATING_NOT_MIRROR s m =
        set_grating w cmp (Choices_dict choices) GRATING_NOT_MIRROR s m"
    using ax by (rule set_axis_grating)
  also have "\<dots> = (case stored s ''grating'' of
         Some g \<Rightarrow> (Inr (AList.update ''grating'' (Lit g) m), s)
       | None \<Rightarrow>
          (case findNonMirror choices of
             Inr key \<Rightarrow> (Inr (AList.update ''grating'' (Lit key) m), s)
           | Inl e \<Rightarrow> (Inl NoNonMirrorGrating, s)))"
    using findNonMirror_error[of choices]
    by (cases "findNonMirror choices")
      (simp_all add: set_grating_def find_key_sentinel split: option.splits)
  finally show "set_axis w comp_role cmp ''grating'' GRATING_NOT_MIRROR s m =
      (case stored s ''grating'' of
         Some g \<Rightarrow> (Inr (AList.update ''grating'' (Lit g) m), s)
       | None \<Rightarrow>
          (case findNonMirror choices of
             Inr key \<Rightarrow> (Inr (AList.update ''grating'' (Lit key) m), s)
           | Inl e \<Rightarrow> (Inl NoNonMirrorGrating, s)))" .
  show "findNonMirror choices = Inr key \<longleftrightarrow>
       (\<exists>pre v post. choices = pre @ (key, v) # post \<and> v \<noteq> Str ''mirror'' \<and>
          snd ` set pre \<subseteq> {Str ''mirror''})"
  proof
    assume "findNonMirror choices = Inr key"
    then show "\<exists>pre v post. choices = pre @ (key, v) # post \<and> v \<noteq> Str ''mirror'' \<and>
          snd ` set pre \<subseteq> {Str ''mirror''}" by (rule findNonMirror_Some)
  next
    assume "\<exists>pre v post. choices = pre @ (key, v) # post \<and> v \<noteq> Str ''mirror'' \<and>
          snd ` set pre \<subseteq> {Str ''mirror''}"
    then obtain pre v post where c: "choices = pre @ (key, v) # post"
      and v: "v \<noteq> Str ''mirror''" and p: "snd ` set pre \<subseteq> {Str ''mirror''}"
      by (elim exE conjE)
    from findNonMirror_first[OF p v, of key post] c
    show "findNonMirror choices = Inr key" by simp
  qed
  show "findNonMirror choices = Inl NoNonMirrorGrating \<longleftrightarrow>
       snd ` set choices \<subseteq> {Str ''mirror''}"
    by (rule findNonMirror_None)
  show "findNonMirror [(Str ''g1'', Str ''600gmm''), (Str ''g2'', Str ''mirror'')] = Inr (Str ''g1'')"
    by simp
qed

theorem grating_not_mirror_witness:
  "set_axis (sparc2_sim gratings_with_mirror (Str ''g2'')) ''spectrograph''
     (spectrograph gratings_with_mirror) ''grating'' GRATING_NOT_MIRROR
     (init (sparc2_sim gratings_with_mirror (Str ''g2''))) [] =
     (Inr [(''grating'', Lit (Str ''g1''))], init (sparc2_sim gratings_with_mirror (Str ''g2''))) \<and>
   issued (trace (snd (setPath (sparc2_sim gratings_with_mirror (Str ''g2''))
     (init (sparc2_sim gratings_with_mirror (Str ''g2''))) ''spectral-integrated''))) =
     [(''Spectrograph'', [(''grating'', Lit (Str ''g1''))])]"
proof -
  let ?w = "sparc2_sim gratings_with_mirror (Str ''g2'')"
  have ax: "map_of (axes (spectrograph gratings_with_mirror)) ''grating'' =
      Some (Choices_dict gratings_with_mirror)"
    by (simp add: spectrograph_def)
  have st: "stored (init ?w) ''grating'' = None"
    by (simp add: eval_defs)
  have f: "findNonMirror gratings_with_mirror = Inr (Str ''g1'')"
    by (simp add: gratings_with_mirror_def)
  from grating_not_mirror[OF ax, of ?w "''spectrograph''" "init ?w" "[]" "Str ''g1''"] st f
  have 1: "set_axis ?w ''spectrograph'' (spectrograph gratings_with_mirror) ''grating''
     GRATING_NOT_MIRROR (init ?w) [] = (Inr [(''grating'', Lit (Str ''g1''))], init ?w)"
    by simp
  have 2: "issued (trace (snd (setPath ?w (init ?w) ''spectral-integrated''))) =
     [(''Spectrograph'', [(''grating'', Lit (Str ''g1''))])]"
    by (simp add: eval_defs)
  from 1 2 show ?thesis by (rule conjI)
qed

subsection \<open>C4: mirror without a mirror\<close>

text \<open>
  C4. On an actuator whose grating axis has a dict of choices none of whose values is
  \<open>mirror\<close>, the target \<open>mirror\<close> of the grating axis puts the axis \<open>wavelength\<close> at
  \<open>0\<close> into the move and leaves the grating axis out of it; a configuration of that
  one target gives the move of \<open>wavelength\<close> to \<open>0\<close> alone.
\<close>

theorem mirror_zero_order:
  assumes ax: "map_of (axes cmp) ''grating'' = Some (Choices_dict choices)"
    and nomirror: "Str ''mirror'' \<notin> snd ` set choices"
  shows "set_axis w comp_role cmp ''grating'' (Lit (Str ''mirror'')) s m =
           (Inr (AList.update ''wavelength'' (Lit (Num 0)) m), s) \<and>
         conf_loop w comp_role cmp [(''grating'', Lit (Str ''mirror''))] s [] =
           (Inr [(''wavelength'', Lit (Num 0))], s)"
proof
  show "set_axis w comp_role cmp ''grating'' (Lit (Str ''mirror'')) s m =
           (Inr (AList.update ''wavelength'' (Lit (Num 0)) m), s)"
    using ax nomirror by (rule set_axis_mirror)
  show "conf_loop w comp_role cmp [(''grating'', Lit (Str ''mirror''))] s [] =
           (Inr [(''wavelength'', Lit (Num 0))], s)"
    by (simp add: set_axis_mirror[OF ax nomirror])
qed

theorem mirror_zero_order_witness:
  "set_axis (sparc2_sim gratings_without_mirror (Str ''g1'')) ''spectrograph''
     (spectrograph gratings_without_mirror) ''grating'' (Lit (Str ''mirror''))
     (init (sparc2_sim gratings_without_mirror (Str ''g1''))) [] =
     (Inr [(''wavelength'', Lit (Num 0))], init (sparc2_sim gratings_without_mirror (Str ''g1''))) \<and>
   issued (trace (snd (setPath (sparc2_sim gratings_without_mirror (Str ''g1''))
     (init (sparc2_sim gratings_without_mirror (Str ''g1''))) ''ar''))) =
     [(''Spectrograph'', [(''wavelength'', Lit (Num 0))])]"
proof -
  let ?w = "sparc2_sim gratings_without_mirror (Str ''g1'')"
  have ax: "map_of (axes (spectrograph gratings_without_mirror)) ''grating'' =
      Some (Choices_dict gratings_without_mirror)"
    by (simp add: spectrograph_def)
  have nm: "Str ''mirror'' \<notin> snd ` set gratings_without_mirror"
    by (simp add: gratings_without_mirror_def)
  from mirror_zero_order[OF ax nm, of ?w "''spectrograph''" "init ?w" "[]"]
  have 1: "set_axis ?w ''spectrograph'' (spectrograph gratings_without_mirror) ''grating''
     (Lit (Str ''mirror'')) (init ?w) [] = (Inr [(''wavelength'', Lit (Num 0))], init ?w)"
    by simp
  have 2: "issued (trace (snd (setPath ?w (init ?w) ''ar''))) =
     [(''Spectrograph'', [(''wavelength'', Lit (Num 0))])]"
    by (simp add: eval_defs)
  from 1 2 show ?thesis by (rule conjI)
qed

subsection \<open>C6: waiting for the moves\<close>

text \<open>
  C6, as the code has it. A call of \<^verbatim>\<open>setPath\<close> that returns (its mode is in the
  working table and its loop over the components raises nothing) has waited for exactly
  the futures of the moves it issued, in the order it issued them, and has logged every
  one of them that raised IOError; what the futures give does not change whether the call
  returns nor the moves it issues: with any other outcomes of the futures, all failing
  included, the call returns as well.
\<close>

theorem setPath_waits_for_all:
  assumes "setPath w s mode = (Inr (), s')"
  shows "(\<exists>new. trace s' = trace s @ new \<and> awaited new = issued new \<and>
           (\<forall>n m e. (n, m) \<in> set (issued new) \<and> move_result w n m = IOError e \<longrightarrow>
              Debug (Actuator_move_failed e) \<in> set new)) \<and>
         fst (setPath (w\<lparr>move_result := f\<rparr>) s mode) = Inr () \<and>
         issued (trace (snd (setPath (w\<lparr>move_result := f\<rparr>) s mode))) = issued (trace s')"
proof -
  from assms obtain det mc where look: "map_of (modes s) mode = Some (det, mc)"
    by (auto simp: setPath_def split: option.splits)
  obtain r s1 where rl: "role_loop w mc s [] = (r, s1)" by (cases "role_loop w mc s []")
  from assms look rl obtain fm where r: "r = Inr fm"
    by (cases r) (simp_all add: setPath_def)
  obtain fm2 s2 where rs: "restore w mode s1 fm = (fm2, s2)" by (cases "restore w mode s1 fm")
  let ?s3 = "s2\<lparr>last_mode := Some mode\<rparr>"
  from assms look rl r rs have s': "s' = wait_all w fm2 ?s3" by (simp add: setPath_def)
  from role_loop_new[OF rl[unfolded r]] obtain n1 where
    n1: "trace s1 = trace s @ n1" "fm = [] @ issued n1" "awaited n1 = []" by auto
  from restore_new[OF rs] obtain n2 where
    n2: "trace s2 = trace s1 @ n2" "fm2 = fm @ issued n2" "awaited n2 = []" by auto
  from wait_all_new[of w fm2 ?s3] obtain n3 where
    n3: "trace (wait_all w fm2 ?s3) = trace ?s3 @ n3" "issued n3 = []" "awaited n3 = fm2"
    and l: "\<forall>n m e. (n, m) \<in> set fm2 \<and> move_result w n m = IOError e \<longrightarrow>
        Debug (Actuator_move_failed e) \<in> set n3" by auto
  let ?new = "n1 @ n2 @ n3"
  have a: "trace s' = trace s @ ?new" using s' n1 n2 n3 by simp
  have i: "issued ?new = fm2" using n1 n2 n3 by (simp add: issued_append)
  have b: "awaited ?new = issued ?new" using i n1 n2 n3 by (simp add: awaited_append)
  have c: "\<forall>n m e. (n, m) \<in> set (issued ?new) \<and> move_result w n m = IOError e \<longrightarrow>
              Debug (Actuator_move_failed e) \<in> set ?new"
    using l i by auto
  from a b c have 1: "\<exists>new. trace s' = trace s @ new \<and> awaited new = issued new \<and>
           (\<forall>n m e. (n, m) \<in> set (issued new) \<and> move_result w n m = IOError e \<longrightarrow>
              Debug (Actuator_move_failed e) \<in> set new)" by blast
  let ?w = "w\<lparr>move_result := f\<rparr>"
  have sp: "setPath ?w s mode = (Inr (), wait_all ?w fm2 ?s3)"
    using look rl r rs
    by (simp add: setPath_def role_loop_move_result restore_move_result)
  have 2: "fst (setPath ?w s mode) = Inr ()" using sp by simp
  have 3: "issued (trace (snd (setPath ?w s mode))) = issued (trace s')"
    using sp s' by (simp add: wait_all_issued)
  from 1 2 3 show ?thesis by blast
qed

theorem setPath_waits_for_all_witness:
  "setPath (sparc2_sim gratings_with_mirror (Str ''g2''))
     (init (sparc2_sim gratings_with_mirror (Str ''g2''))) ''spectral-integrated'' =
     (Inr (), snd (setPath (sparc2_sim gratings_with_mirror (Str ''g2''))
        (init (sparc2_sim gratings_with_mirror (Str ''g2''))) ''spectral-integrated'')) \<and>
   move_result (sparc2_sim gratings_with_mirror (Str ''g2'')) ''Spectrograph''
     [(''grating'', Lit (Str ''g1''))] = IOError ''stalled'' \<and>
   awaited (trace (snd (setPath (sparc2_sim gratings_with_mirror (Str ''g2''))
        (init (sparc2_sim gratings_with_mirror (Str ''g2''))) ''spectral-integrated''))) =
     [(''Spectrograph'', [(''grating'', Lit (Str ''g1''))])] \<and>
   Debug (Actuator_move_failed ''stalled'') \<in> set (trace (snd (setPath
        (sparc2_sim gratings_with_mirror (Str ''g2''))
        (init (sparc2_sim gratings_with_mirror (Str ''g2''))) ''spectral-integrated''))) \<and>
   fst (setPath (sparc2_sim gratings_with_mirror (Str ''g2'')\<lparr>move_result := \<lambda>n m. Done\<rparr>)
        (init (sparc2_sim gratings_with_mirror (Str ''g2''))) ''spectral-integrated'') = Inr ()"
proof -
  let ?w = "sparc2_sim gratings_with_mirror (Str ''g2'')"
  let ?r = "setPath ?w (init ?w) ''spectral-integrated''"
  have f: "fst ?r = Inr ()" by (simp add: eval_defs)
  then have 1: "?r = (Inr (), snd ?r)" by (cases ?r) simp
  have 2: "move_result ?w ''Spectrograph'' [(''grating'', Lit (Str ''g1''))] = IOError ''stalled''"
    by (simp add: sparc2_sim_def)
  have 3: "awaited (trace (snd ?r)) = [(''Spectrograph'', [(''grating'', Lit (Str ''g1''))])]"
    by (simp add: eval_defs)
  have 4: "Debug (Actuator_move_failed ''stalled'') \<in> set (trace (snd ?r))"
    by (simp add: eval_defs)
  from setPath_waits_for_all[OF 1, of "\<lambda>n m. Done"]
  have 5: "fst (setPath (?w\<lparr>move_result := \<lambda>n m. Done\<rparr>) (init ?w) ''spectral-integrated'') = Inr ()"
    by blast
  from 1 2 3 4 5 show ?thesis by blast
qed

text \<open>
  C6 as stated fails for a call that raises in its loop: on a SPARC2 whose spectrograph
  has the mirror as its only grating, the call for \<open>spectral-integrated\<close> issues the move
  of the lens switch, then raises the ValueError of \<^verbatim>\<open>findNonMirror\<close> at the grating
  axis, and has waited for no future.
\<close>

theorem moves_not_awaited_when_loop_raises:
  "fst (setPath sparc2_only_mirror (init sparc2_only_mirror) ''spectral-integrated'') =
     Inl NoNonMirrorGrating \<and>
   issued (trace (snd (setPath sparc2_only_mirror (init sparc2_only_mirror)
     ''spectral-integrated''))) = [(''Lens Switch'', [(''x'', Lit (Num 1))])] \<and>
   awaited (trace (snd (setPath sparc2_only_mirror (init sparc2_only_mirror)
     ''spectral-integrated''))) = []"
  by (simp add: eval_mirror)

subsection \<open>C5: restoring the band and the slit on leaving the alignment modes\<close>

text \<open>
  C5, as the code has it. In a call of \<^verbatim>\<open>setPath\<close> for a mode that is not an
  alignment mode, made when \<^verbatim>\<open>_last_mode\<close> is one, and whose loop over the components
  of the mode raises nothing: the call returns, and after the moves of the mode it issues,
  for the axis \<open>band\<close> and then for the axis \<open>slit-in\<close>, if \<^verbatim>\<open>_stored\<close> held a value
  for the axis when the call started, one more move of the component of role \<open>filter\<close>
  (for \<open>band\<close>) or \<open>spectrograph\<close> (for \<open>slit-in\<close>) to that value; when that component
  is not found, no move is issued for the axis and a line is logged instead. All these
  moves are then waited for.
\<close>

theorem restore_on_leaving_alignment:
  assumes look: "map_of (modes s) mode = Some (det, mc)"
    and rl: "role_loop w mc s [] = (Inr fm, s1)"
    and al: "in_align (last_mode s)"
    and na: "mode \<notin> set ALIGN_MODES"
  shows "\<exists>s' pre post. setPath w s mode = (Inr (), s') \<and>
           trace s' = trace s1 @ pre @ post \<and>
           issued pre = restoring_move w s ''filter'' ''band'' @
                        restoring_move w s ''spectrograph'' ''slit-in'' \<and>
           awaited pre = [] \<and> issued post = [] \<and> awaited post = fm @ issued pre \<and>
           (stored s ''band'' \<noteq> None \<and>
            fst (cached_getComponent w ''filter'' s) = Inl (NotFound ''filter'')
              \<longrightarrow> Debug No_filter_component \<in> set pre) \<and>
           (stored s ''slit-in'' \<noteq> None \<and>
            fst (cached_getComponent w ''spectrograph'' s) = Inl (NotFound ''spectrograph'')
              \<longrightarrow> Debug No_spectrograph_component \<in> set pre)"
proof -
  from evolves_role_loop[of w s mc "[]"] rl have e1: "evolves w s s1" by simp
  from evolves_tables[OF e1] al have al1: "in_align (last_mode s1)" by simp
  obtain fa sa where r1: "restore_axis w ''filter'' ''band'' No_filter_component s1 fm = (fa, sa)"
    by (cases "restore_axis w ''filter'' ''band'' No_filter_component s1 fm")
  obtain fm2 s2 where
    r2: "restore_axis w ''spectrograph'' ''slit-in'' No_spectrograph_component sa fa = (fm2, s2)"
    by (cases "restore_axis w ''spectrograph'' ''slit-in'' No_spectrograph_component sa fa")
  from al1 na r1 r2 have rs: "restore w mode s1 fm = (fm2, s2)" by (simp add: restore_def)
  from evolves_restore_axis[of w s1 "''filter''" "''band''" No_filter_component fm] r1
  have "evolves w s1 sa" by simp
  with e1 have ea: "evolves w s sa" by (rule evolves_trans)
  have b1: "restoring_move w s1 ''filter'' ''band'' = restoring_move w s ''filter'' ''band''"
    using e1 al by (rule restoring_move_evolved) simp
  have b2: "restoring_move w sa ''spectrograph'' ''slit-in'' =
            restoring_move w s ''spectrograph'' ''slit-in''"
    using ea al by (rule restoring_move_evolved) simp
  have st1: "stored s1 ''band'' = stored s ''band''"
    using evolves_aligned[OF e1 al] by simp
  have st2: "stored sa ''slit-in'' = stored s ''slit-in''"
    using evolves_aligned[OF ea al] by simp
  note g1 = cached_getComponent_evolved[OF e1, of "''filter''"]
  note g2 = cached_getComponent_evolved[OF ea, of "''spectrograph''"]
  from restore_axis_new[OF r1] obtain n1 where
    n1: "trace sa = trace s1 @ n1" "issued n1 = restoring_move w s ''filter'' ''band''"
        "fa = fm @ restoring_move w s ''filter'' ''band''" "awaited n1 = []"
    and l1: "stored s ''band'' \<noteq> None \<and>
            fst (cached_getComponent w ''filter'' s) = Inl (NotFound ''filter'')
              \<longrightarrow> n1 = [Debug No_filter_component]"
    unfolding b1 st1 g1 by blast
  from restore_axis_new[OF r2] obtain n2 where
    n2: "trace s2 = trace sa @ n2" "issued n2 = restoring_move w s ''spectrograph'' ''slit-in''"
        "fm2 = fa @ restoring_move w s ''spectrograph'' ''slit-in''" "awaited n2 = []"
    and l2: "stored s ''slit-in'' \<noteq> None \<and>
            fst (cached_getComponent w ''spectrograph'' s) = Inl (NotFound ''spectrograph'')
              \<longrightarrow> n2 = [Debug No_spectrograph_component]"
    unfolding b2 st2 g2 by blast
  let ?s3 = "s2\<lparr>last_mode := Some mode\<rparr>"
  from wait_all_new[of w fm2 ?s3] obtain n3 where
    n3: "trace (wait_all w fm2 ?s3) = trace ?s3 @ n3" "issued n3 = []" "awaited n3 = fm2"
    by blast
  let ?pre = "n1 @ n2"
  have sp: "setPath w s mode = (Inr (), wait_all w fm2 ?s3)"
    using look rl rs by (simp add: setPath_def)
  have t: "trace (wait_all w fm2 ?s3) = trace s1 @ ?pre @ n3" using n1 n2 n3 by simp
  have ip: "issued ?pre = restoring_move w s ''filter'' ''band'' @
                        restoring_move w s ''spectrograph'' ''slit-in''"
    using n1 n2 by (simp add: issued_append)
  have ap: "awaited ?pre = []" using n1 n2 by (simp add: awaited_append)
  have aw: "awaited n3 = fm @ issued ?pre" using n1 n2 n3 ip by simp
  have d1: "stored s ''band'' \<noteq> None \<and>
            fst (cached_getComponent w ''filter'' s) = Inl (NotFound ''filter'')
              \<longrightarrow> Debug No_filter_component \<in> set ?pre"
    using l1 by auto
  have d2: "stored s ''slit-in'' \<noteq> None \<and>
            fst (cached_getComponent w ''spectrograph'' s) = Inl (NotFound ''spectrograph'')
              \<longrightarrow> Debug No_spectrograph_component \<in> set ?pre"
    using l2 by auto
  show ?thesis
    apply (rule exI[of _ "wait_all w fm2 ?s3"])
    apply (rule exI[of _ ?pre])
    apply (rule exI[of _ n3])
    apply (intro conjI)
           apply (rule sp)
          apply (rule t)
         apply (rule ip)
        apply (rule ap)
       apply (rule n3(2))
      apply (rule aw)
     apply (rule d1)
    apply (rule d2)
    done
qed

theorem restore_on_leaving_alignment_witness:
  "in_align (last_mode after_fiber_align) \<and> ''spectral'' \<notin> set ALIGN_MODES \<and>
   stored after_fiber_align ''band'' = Some (Num 3) \<and>
   stored after_fiber_align ''slit-in'' = Some (Num (1 / 10000)) \<and>
   fst (setPath sparc_sim after_fiber_align ''spectral'') = Inr () \<and>
   issued (drop (length (trace after_fiber_align))
     (trace (snd (setPath sparc_sim after_fiber_align ''spectral'')))) =
     [(''Lens Switch'', [(''rx'', Lit (Num radians_90))]),
      (''Filter Wheel'', [(''band'', Lit (Num 3))]),
      (''Spectrograph'', [(''slit-in'', Lit (Num (1 / 10000)))])] \<and>
   fst (setPath sparc2_only_mirror
     (after_spec_focus\<lparr>stored := (stored after_spec_focus)(''band'' \<mapsto> Num 3)\<rparr>) ''ar'') = Inr () \<and>
   Debug No_filter_component \<in> set (drop (length (trace after_spec_focus))
     (trace (snd (setPath sparc2_only_mirror
       (after_spec_focus\<lparr>stored := (stored after_spec_focus)(''band'' \<mapsto> Num 3)\<rparr>) ''ar'')))) \<and>
   issued (drop (length (trace after_spec_focus))
     (trace (snd (setPath sparc2_only_mirror
       (after_spec_focus\<lparr>stored := (stored after_spec_focus)(''band'' \<mapsto> Num 3)\<rparr>) ''ar'')))) =
     [(''Lens Switch'', [(''x'', Lit (Num 0))]),
      (''Spectrograph'', [(''grating'', Lit (Str ''g2''))]),
      (''Spectrograph'', [(''slit-in'', Lit (Num (1 / 10000)))])]"
proof -
  let ?mc = "snd (snd (SPARC_MODES ! 2))"
  let ?fm = "[(''Lens Switch'', [(''rx'', Lit (Num radians_90))])]"
  have look: "map_of (modes after_fiber_align) ''spectral'' = Some (''spectrometer'', ?mc)"
    by (simp add: after_fiber_align_def eval_sparc)
  have "fst (role_loop sparc_sim ?mc after_fiber_align []) = Inr ?fm"
    by (simp add: after_fiber_align_def eval_sparc)
  then have rl: "role_loop sparc_sim ?mc after_fiber_align [] =
      (Inr ?fm, snd (role_loop sparc_sim ?mc after_fiber_align []))"
    by (cases "role_loop sparc_sim ?mc after_fiber_align []") simp
  have al: "in_align (last_mode after_fiber_align)"
    by (simp add: after_fiber_align_def eval_sparc)
  have na: "''spectral'' \<notin> set ALIGN_MODES" by (simp add: ALIGN_MODES_def)
  from restore_on_leaving_alignment[OF look rl al na]
  have 1: "fst (setPath sparc_sim after_fiber_align ''spectral'') = Inr ()" by auto
  have 2: "stored after_fiber_align ''band'' = Some (Num 3)"
    by (simp add: after_fiber_align_def eval_sparc)
  have 3: "stored after_fiber_align ''slit-in'' = Some (Num (1 / 10000))"
    by (simp add: after_fiber_align_def eval_sparc)
  have 4: "issued (drop (length (trace after_fiber_align))
     (trace (snd (setPath sparc_sim after_fiber_align ''spectral'')))) =
     [(''Lens Switch'', [(''rx'', Lit (Num radians_90))]),
      (''Filter Wheel'', [(''band'', Lit (Num 3))]),
      (''Spectrograph'', [(''slit-in'', Lit (Num (1 / 10000)))])]"
    by (simp add: after_fiber_align_def eval_sparc)
  have 5: "fst (setPath sparc2_only_mirror
     (after_spec_focus\<lparr>stored := (stored after_spec_focus)(''band'' \<mapsto> Num 3)\<rparr>) ''ar'') = Inr () \<and>
   Debug No_filter_component \<in> set (drop (length (trace after_spec_focus))
     (trace (snd (setPath sparc2_only_mirror
       (after_spec_focus\<lparr>stored := (stored after_spec_focus)(''band'' \<mapsto> Num 3)\<rparr>) ''ar'')))) \<and>
   issued (drop (length (trace after_spec_focus))
     (trace (snd (setPath sparc2_only_mirror
       (after_spec_focus\<lparr>stored := (stored after_spec_focus)(''band'' \<mapsto> Num 3)\<rparr>) ''ar'')))) =
     [(''Lens Switch'', [(''x'', Lit (Num 0))]),
      (''Spectrograph'', [(''grating'', Lit (Str ''g2''))]),
      (''Spectrograph'', [(''slit-in'', Lit (Num (1 / 10000)))])]"
    by (simp add: after_spec_focus_def eval_mirror)
  note x1 = 5[THEN conjunct1] and x2 = 5[THEN conjunct2, THEN conjunct1]
    and x3 = 5[THEN conjunct2, THEN conjunct2]
  from al na 2 3 1 4 x1 x2 x3 show ?thesis by (intro conjI)
qed

text \<open>
  C5 as stated fails for a call that raises in its loop: on the same SPARC2, after a
  call for \<open>spec-focus\<close> has stored the slit, the call for \<open>spectral-integrated\<close>
  raises at the grating axis; the spectrograph is found and \<^verbatim>\<open>_stored\<close> holds the slit,
  yet the only move issued is that of the lens switch, and \<^verbatim>\<open>_last_mode\<close> stays
  \<open>spec-focus\<close>.
\<close>

theorem restore_skipped_when_loop_raises:
  "in_align (last_mode after_spec_focus) \<and> ''spectral-integrated'' \<notin> set ALIGN_MODES \<and>
   stored after_spec_focus ''slit-in'' = Some (Num (1 / 10000)) \<and>
   fst (cached_getComponent sparc2_only_mirror ''spectrograph'' after_spec_focus) =
     Inr (spectrograph gratings_only_mirror) \<and>
   fst (setPath sparc2_only_mirror after_spec_focus ''spectral-integrated'') =
     Inl NoNonMirrorGrating \<and>
   issued (drop (length (trace after_spec_focus))
     (trace (snd (setPath sparc2_only_mirror after_spec_focus ''spectral-integrated'')))) =
     [(''Lens Switch'', [(''x'', Lit (Num 1))])] \<and>
   last_mode (snd (setPath sparc2_only_mirror after_spec_focus ''spectral-integrated'')) =
     Some ''spec-focus''"
  by (simp add: after_spec_focus_def eval_mirror)

subsection \<open>C10: a mode none of whose components is found\<close>

text \<open>
  C10, as the code has it. When the requested mode is in the working table and no role
  of its configuration is found, neither in the cache nor in the registry, \<^verbatim>\<open>setPath\<close>
  returns and sets \<^verbatim>\<open>_last_mode\<close> to the mode, so that the test of the next call on
  \<^verbatim>\<open>_last_mode\<close> is the test whether this mode is an alignment mode; \<^verbatim>\<open>_stored\<close> is
  unchanged and no move of the mode is issued: the only moves of the call are the
  restoring moves of \<open>band\<close> and \<open>slit-in\<close>, owed when \<^verbatim>\<open>_last_mode\<close> was an
  alignment mode and the mode is none, and there is no move at all otherwise.
\<close>

theorem setPath_unresolved_roles:
  assumes look: "map_of (modes s) mode = Some (det, mc)"
    and un: "\<forall>(r, cf) \<in> set mc. known_comps s r = None \<and> getComponent w r = None"
  shows "\<exists>s' new. setPath w s mode = (Inr (), s') \<and> last_mode s' = Some mode \<and>
           (in_align (last_mode s') \<longleftrightarrow> mode \<in> set ALIGN_MODES) \<and>
           stored s' = stored s \<and>
           trace s' = trace s @ new \<and>
           issued new =
             (if in_align (last_mode s) \<and> mode \<notin> set ALIGN_MODES
              then restoring_move w s ''filter'' ''band'' @
                   restoring_move w s ''spectrograph'' ''slit-in''
              else [])"
proof -
  let ?n1 = "map (\<lambda>(r, cf). Debug (Failed_to_find_component r)) mc"
  let ?s1 = "s\<lparr>trace := trace s @ ?n1\<rparr>"
  have rl: "role_loop w mc s [] = (Inr [], ?s1)" using un by (rule role_loop_unresolved)
  have i1: "issued ?n1 = []" by (induction mc) auto
  from evolves_role_loop[of w s mc "[]"] rl have e1: "evolves w s ?s1" by simp
  obtain fm2 s2 where rs: "restore w mode ?s1 [] = (fm2, s2)"
    by (cases "restore w mode ?s1 []")
  let ?s3 = "s2\<lparr>last_mode := Some mode\<rparr>"
  let ?s' = "wait_all w fm2 ?s3"
  have sp: "setPath w s mode = (Inr (), ?s')" using look rl rs by (simp add: setPath_def)
  from wait_all_new[of w fm2 ?s3] obtain n3 where
    n3: "trace ?s' = trace ?s3 @ n3" "issued n3 = []" by blast
  have lm: "last_mode ?s' = Some mode" by (simp add: wait_all_fields)
  have st': "stored ?s' = stored s2" by (simp add: wait_all_fields)
  let ?rm = "if in_align (last_mode s) \<and> mode \<notin> set ALIGN_MODES
              then restoring_move w s ''filter'' ''band'' @
                   restoring_move w s ''spectrograph'' ''slit-in''
              else []"
  have "\<exists>pre. trace s2 = trace ?s1 @ pre \<and> stored s2 = stored ?s1 \<and> issued pre = ?rm"
  proof (cases "in_align (last_mode s) \<and> mode \<notin> set ALIGN_MODES")
    case True
    then have al: "in_align (last_mode s)" and na: "mode \<notin> set ALIGN_MODES" by simp_all
    from True have c: "?rm = restoring_move w s ''filter'' ''band'' @
                   restoring_move w s ''spectrograph'' ''slit-in''" by (rule if_P)
    from restore_leaving[OF e1 al na rs] obtain pre where
      p: "trace s2 = trace ?s1 @ pre"
         "issued pre = restoring_move w s ''filter'' ''band'' @
                        restoring_move w s ''spectrograph'' ''slit-in''"
         "stored s2 = stored ?s1"
      by (elim exE conjE)
    from p(2) have p2: "issued pre = ?rm" by (simp only: c)
    show ?thesis
      apply (rule exI[of _ pre])
      apply (intro conjI)
        apply (rule p(1))
       apply (rule p(3))
      apply (rule p2)
      done
  next
    case False
    then have c: "?rm = []" by (rule if_not_P)
    from False have nf: "\<not> (in_align (last_mode ?s1) \<and> mode \<notin> set ALIGN_MODES)"
      by simp
    have "restore w mode ?s1 [] = ([], ?s1)"
      unfolding restore_def by (rule if_not_P[OF nf])
    with rs have s2: "s2 = ?s1" by simp
    have q1: "trace s2 = trace ?s1 @ []" by (simp only: s2 append_Nil2)
    have q2: "stored s2 = stored ?s1" by (simp only: s2)
    have q3: "issued [] = ?rm" by (simp only: c issued.simps)
    show ?thesis
      apply (rule exI[of _ "[]"])
      apply (intro conjI)
        apply (rule q1)
       apply (rule q2)
      apply (rule q3)
      done
  qed
  then obtain pre where pre: "trace s2 = trace ?s1 @ pre" "stored s2 = stored ?s1"
     "issued pre = ?rm" by (elim exE conjE)
  let ?new = "?n1 @ pre @ n3"
  have ts1: "trace ?s1 = trace s @ ?n1" by simp
  have ts3: "trace ?s3 = trace s2" by simp
  have t: "trace ?s' = trace s @ ?new"
    by (simp only: n3(1) ts3 pre(1) ts1 append_assoc)
  have i: "issued ?new = ?rm"
    by (simp only: issued_append i1 n3(2) pre(3) append_Nil append_Nil2)
  have ss1: "stored ?s1 = stored s" by simp
  have a: "in_align (last_mode ?s') \<longleftrightarrow> mode \<in> set ALIGN_MODES" using lm by simp
  have s: "stored ?s' = stored s" by (simp only: st' pre(2) ss1)
  show ?thesis
    apply (rule exI[of _ ?s'])
    apply (rule exI[of _ ?new])
    apply (intro conjI)
         apply (rule sp)
        apply (rule lm)
       apply (rule a)
      apply (rule s)
     apply (rule t)
    apply (rule i)
    done
qed

theorem setPath_unresolved_roles_witness:
  "fst (setPath sparc_ccd_filter (init sparc_ccd_filter) ''ar'') = Inr () \<and>
   last_mode (snd (setPath sparc_ccd_filter (init sparc_ccd_filter) ''ar'')) = Some ''ar'' \<and>
   issued (trace (snd (setPath sparc_ccd_filter (init sparc_ccd_filter) ''ar''))) = []"
proof -
  let ?mc = "snd (snd (SPARC_MODES ! 0))"
  have look: "map_of (modes (init sparc_ccd_filter)) ''ar'' = Some (''ccd'', ?mc)"
    by (simp add: modes_init_sparc_ccd_filter SPARC_MODES_def)
  have un: "\<forall>(r, cf) \<in> set ?mc. known_comps (init sparc_ccd_filter) r = None \<and>
      getComponent sparc_ccd_filter r = None"
    by (simp add: eval_sparc)
  from setPath_unresolved_roles[OF look un]
  have 1: "fst (setPath sparc_ccd_filter (init sparc_ccd_filter) ''ar'') = Inr ()" by auto
  have 2: "last_mode (snd (setPath sparc_ccd_filter (init sparc_ccd_filter) ''ar'')) = Some ''ar''"
    by (simp add: eval_sparc)
  have 3: "issued (trace (snd (setPath sparc_ccd_filter (init sparc_ccd_filter) ''ar''))) = []"
    by (simp add: eval_sparc)
  from 1 2 3 show ?thesis by (intro conjI)
qed

text \<open>
  C10 as stated fails where a restoring move is owed: on the SPARC with a camera and a
  filter wheel only, after a call for \<open>mirror-align\<close> has stored the band, the call for
  \<open>ar\<close> finds none of the three roles of \<open>ar\<close> and yet issues a move, the one that
  puts the filter wheel back.
\<close>

theorem restore_issued_when_roles_unresolved:
  "map_of (modes after_mirror_align) ''ar'' = Some (snd (SPARC_MODES ! 0)) \<and>
   snd (snd (SPARC_MODES ! 0)) =
     [(''lens-switch'', rx radians_90), (''ar-spec-selector'', rx 0), (''ar-det-selector'', rx 0)] \<and>
   fst (cached_getComponent sparc_ccd_filter ''lens-switch'' after_mirror_align) =
     Inl (NotFound ''lens-switch'') \<and>
   fst (cached_getComponent sparc_ccd_filter ''ar-spec-selector'' after_mirror_align) =
     Inl (NotFound ''ar-spec-selector'') \<and>
   fst (cached_getComponent sparc_ccd_filter ''ar-det-selector'' after_mirror_align) =
     Inl (NotFound ''ar-det-selector'') \<and>
   fst (setPath sparc_ccd_filter after_mirror_align ''ar'') = Inr () \<and>
   issued (drop (length (trace after_mirror_align))
     (trace (snd (setPath sparc_ccd_filter after_mirror_align ''ar'')))) =
     [(''Filter Wheel'', [(''band'', Lit (Num 3))])]"
  by (simp add: after_mirror_align_def eval_sparc)

subsection \<open>C9: the discipline of the restore-store\<close>

text \<open>
  C9, as the code has it. For a call of \<^verbatim>\<open>setPath\<close> from any manager: \<^verbatim>\<open>_stored\<close>, a
  dictionary, holds at most one value for an axis; the call removes no entry of it; it
  changes no entry but those of \<open>band\<close>, \<open>grating\<close> and \<open>slit-in\<close>, and those of
  \<open>band\<close> and \<open>slit-in\<close> only when \<^verbatim>\<open>_last_mode\<close> is not an alignment mode; and unless
  \<^verbatim>\<open>_last_mode\<close> is an alignment mode and the requested mode is none, the call does not
  read the entries of \<open>band\<close> and \<open>slit-in\<close>: from two managers that differ only in
  them it gives the same result and the same events, and managers that again differ only
  in them.
\<close>

theorem stored_discipline:
  "(\<forall>k v v'. stored (snd (setPath w s mode)) k = Some v \<and>
       stored (snd (setPath w s mode)) k = Some v' \<longrightarrow> v = v') \<and>
   dom (stored s) \<subseteq> dom (stored (snd (setPath w s mode))) \<and>
   (\<forall>k. k \<noteq> ''band'' \<and> k \<noteq> ''grating'' \<and> k \<noteq> ''slit-in'' \<longrightarrow>
      stored (snd (setPath w s mode)) k = stored s k) \<and>
   (in_align (last_mode s) \<longrightarrow>
      stored (snd (setPath w s mode)) ''band'' = stored s ''band'' \<and>
      stored (snd (setPath w s mode)) ''slit-in'' = stored s ''slit-in'') \<and>
   (same_but_band_slit s t \<and> \<not> (in_align (last_mode s) \<and> mode \<notin> set ALIGN_MODES) \<longrightarrow>
      fst (setPath w t mode) = fst (setPath w s mode) \<and>
      same_but_band_slit (snd (setPath w s mode)) (snd (setPath w t mode)))"
proof -
  have 0: "\<forall>k v v'. stored (snd (setPath w s mode)) k = Some v \<and>
       stored (snd (setPath w s mode)) k = Some v' \<longrightarrow> v = v'" by auto
  note st = setPath_stored[of s w mode]
  have 4: "same_but_band_slit s t \<and> \<not> (in_align (last_mode s) \<and> mode \<notin> set ALIGN_MODES) \<longrightarrow>
      fst (setPath w t mode) = fst (setPath w s mode) \<and>
      same_but_band_slit (snd (setPath w s mode)) (snd (setPath w t mode))"
  proof
    assume h: "same_but_band_slit s t \<and> \<not> (in_align (last_mode s) \<and> mode \<notin> set ALIGN_MODES)"
    from sim_setPath[OF h[THEN conjunct1] h[THEN conjunct2]]
    show "fst (setPath w t mode) = fst (setPath w s mode) \<and>
      same_but_band_slit (snd (setPath w s mode)) (snd (setPath w t mode))" .
  qed
  show ?thesis
    apply (intro conjI)
        apply (rule 0)
       apply (rule st[THEN conjunct1])
      apply (rule st[THEN conjunct2, THEN conjunct1])
     apply (rule st[THEN conjunct2, THEN conjunct2])
    apply (rule 4)
    done
qed

theorem stored_discipline_witness:
  "in_align (last_mode after_fiber_align) \<and>
   same_but_band_slit after_fiber_align
     (after_fiber_align\<lparr>stored := (stored after_fiber_align)(''band'' \<mapsto> Num 5)\<rparr>) \<and>
   stored (snd (setPath sparc_sim after_fiber_align ''mirror-align'')) ''band'' = Some (Num 3) \<and>
   fst (setPath sparc_sim
     (after_fiber_align\<lparr>stored := (stored after_fiber_align)(''band'' \<mapsto> Num 5)\<rparr>)
     ''mirror-align'') = fst (setPath sparc_sim after_fiber_align ''mirror-align'') \<and>
   trace (snd (setPath sparc_sim
     (after_fiber_align\<lparr>stored := (stored after_fiber_align)(''band'' \<mapsto> Num 5)\<rparr>)
     ''mirror-align'')) = trace (snd (setPath sparc_sim after_fiber_align ''mirror-align''))"
proof -
  let ?t = "after_fiber_align\<lparr>stored := (stored after_fiber_align)(''band'' \<mapsto> Num 5)\<rparr>"
  have al: "in_align (last_mode after_fiber_align)"
    by (simp add: after_fiber_align_def eval_sparc)
  have sim: "same_but_band_slit after_fiber_align ?t"
    by (simp add: same_but_band_slit_def)
  have nl: "\<not> (in_align (last_mode after_fiber_align) \<and> ''mirror-align'' \<notin> set ALIGN_MODES)"
    by (simp add: ALIGN_MODES_def)
  have b: "stored after_fiber_align ''band'' = Some (Num 3)"
    by (simp add: after_fiber_align_def eval_sparc)
  note d = stored_discipline[of sparc_sim after_fiber_align "''mirror-align''" ?t]
  from d[THEN conjunct2, THEN conjunct2, THEN conjunct2, THEN conjunct1] al b
  have 1: "stored (snd (setPath sparc_sim after_fiber_align ''mirror-align'')) ''band'' =
      Some (Num 3)" by simp
  from d[THEN conjunct2, THEN conjunct2, THEN conjunct2, THEN conjunct2] sim nl
  have 2: "fst (setPath sparc_sim ?t ''mirror-align'') =
        fst (setPath sparc_sim after_fiber_align ''mirror-align'')"
    and 3: "same_but_band_slit (snd (setPath sparc_sim after_fiber_align ''mirror-align''))
        (snd (setPath sparc_sim ?t ''mirror-align''))" by simp_all
  from sim_fields[OF 3]
  have 4: "trace (snd (setPath sparc_sim ?t ''mirror-align'')) =
      trace (snd (setPath sparc_sim after_fiber_align ''mirror-align''))" by simp
  from al sim 1 2 4 show ?thesis by (intro conjI)
qed

text \<open>
  C9 as stated fails for the entry of the grating, which is read in calls that do not
  leave the alignment modes: on a SPARC2 standing on its second grating, the call for
  \<open>ar\<close> stores that grating, and the call for \<open>spectral-integrated\<close> that follows, from
  one mode that is no alignment mode to another, moves to the stored grating \<open>g3\<close>,
  where with nothing stored it moves to \<open>g1\<close>, the first grating that is not the mirror.
\<close>

theorem stored_grating_read_between_modes:
  "last_mode after_ar = Some ''ar'' \<and> \<not> in_align (last_mode after_ar) \<and>
   ''spectral-integrated'' \<notin> set ALIGN_MODES \<and>
   stored after_ar ''grating'' = Some (Str ''g3'') \<and>
   findNonMirror gratings_three = Inr (Str ''g1'') \<and>
   issued (drop (length (trace after_ar))
     (trace (snd (setPath (sparc2_sim gratings_three (Str ''g3'')) after_ar
        ''spectral-integrated'')))) = [(''Spectrograph'', [(''grating'', Lit (Str ''g3''))])] \<and>
   issued (drop (length (trace after_ar))
     (trace (snd (setPath (sparc2_sim gratings_three (Str ''g3''))
        (after_ar\<lparr>stored := Map.empty\<rparr>) ''spectral-integrated'')))) =
     [(''Spectrograph'', [(''grating'', Lit (Str ''g1''))])]"
  by (simp add: after_ar_def gratings_three_def eval_defs)

end
